theory Spec2Isabelle
  imports Complex_Main "HOL-Library.AList" "HOL-Library.Multiset"
begin

section \<open>Data model\<close>

text \<open>
  Python strings are modelled as \<open>string\<close>, one \<open>char\<close> per code point (code points
  below 256), so \<open>length\<close> is Python's \<open>len\<close>. Python floats that are only stored and
  compared (similarity scores, thresholds) are modelled as \<open>real\<close>; NaN is outside the model.
  Exceptions are values of type \<open>exn\<close>, which stands for the subclasses of Python's
  \<open>Exception\<close>: a computation that may raise returns \<open>exn + 'a\<close>.
\<close>

datatype exn =
    AttributeError | TypeError | ValueError | KeyError | ImportError
  | JSONDecodeError | OSError | TransportError | EncodeError

text \<open>
  Metadata dictionaries (\<open>Dict[str, Any]\<close>) are association lists in insertion order with
  unique keys; \<open>AList.update\<close> is Python's \<open>d[k] = v\<close> (overwrite in place, or append).
  The values the pipeline stores are strings and integers.
\<close>

datatype mval = MStr string | MInt int

type_synonym metadata = "(string \<times> mval) list"

text \<open>\<open>class Settings\<close> of config.py, with the defaults written there.\<close>

record settings =
  CHUNK_SIZE :: int
  CHUNK_OVERLAP :: int
  TOP_K_RESULTS :: int
  SIMILARITY_THRESHOLD :: real
  ENDEE_COLLECTION :: string
  endee_base_url :: string

definition default_settings :: settings where
  "default_settings =
     \<lparr> CHUNK_SIZE = 500, CHUNK_OVERLAP = 50, TOP_K_RESULTS = 10,
       SIMILARITY_THRESHOLD = 0.5, ENDEE_COLLECTION = ''research_papers'',
       endee_base_url = ''http://localhost:3000'' \<rparr>"

text \<open>
  Python's \<open>x or d\<close> on an optional number: \<open>None\<close> and zero are both falsy and give
  the default \<open>d\<close>.
\<close>

definition or_int :: "int option \<Rightarrow> int \<Rightarrow> int" where
  "or_int x d = (case x of None \<Rightarrow> d | Some v \<Rightarrow> if v = 0 then d else v)"

definition or_float :: "real option \<Rightarrow> real \<Rightarrow> real" where
  "or_float x d = (case x of None \<Rightarrow> d | Some v \<Rightarrow> if v = 0 then d else v)"

text \<open>\<open>x or d\<close> on an optional string: \<open>None\<close> and the empty string give \<open>d\<close>.\<close>

definition or_str :: "string option \<Rightarrow> string \<Rightarrow> string" where
  "or_str x d = (case x of None \<Rightarrow> d | Some v \<Rightarrow> if v = [] then d else v)"

text \<open>\<open>x or {}\<close> on an optional dictionary.\<close>

definition or_dict :: "metadata option \<Rightarrow> metadata" where
  "or_dict x = (case x of None \<Rightarrow> [] | Some v \<Rightarrow> v)"

section \<open>Chunker (document\_processor.py)\<close>

text \<open>
  Whitespace as \<open>str.isspace\<close> and the regex class \<open>\s\<close> see it on code points below
  256: tab, line feed, vertical tab, form feed, carriage return, the separators
  0x1C..0x1F, space, NEL (0x85) and no-break space (0xA0).
\<close>

definition newline :: char where
  "newline = CHR 0x0A"

definition is_space :: "char \<Rightarrow> bool" where
  "is_space c \<longleftrightarrow>
     c = CHR 0x09 \<or> c = CHR 0x0A \<or> c = CHR 0x0B \<or> c = CHR 0x0C \<or> c = CHR 0x0D \<or>
     c = CHR 0x1C \<or> c = CHR 0x1D \<or> c = CHR 0x1E \<or> c = CHR 0x1F \<or> c = CHR 0x20 \<or>
     c = CHR 0x85 \<or> c = CHR 0xA0"

definition is_digit :: "char \<Rightarrow> bool" where
  "is_digit c \<longleftrightarrow> c \<in> set ''0123456789''"

text \<open>\<open>str.strip()\<close>: drop leading and trailing whitespace.\<close>

definition strip :: "string \<Rightarrow> string" where
  "strip s = rev (dropWhile is_space (rev (dropWhile is_space s)))"

text \<open>
  \<open>re.sub(r'\s+', ' ', text)\<close>: every maximal run of whitespace becomes one space. The
  flag says whether the previous character was whitespace (the run is already replaced).
\<close>

fun collapse_ws :: "bool \<Rightarrow> string \<Rightarrow> string" where
  "collapse_ws in_run [] = []"
| "collapse_ws in_run (c # cs) =
     (if is_space c
      then (if in_run then collapse_ws True cs else CHR '' '' # collapse_ws True cs)
      else c # collapse_ws False cs)"

text \<open>
  \<open>re.sub(r'\n\d+\n', '\n', text)\<close>: a line feed, one or more digits and a line feed are
  replaced by one line feed; scanning resumes after the match.
\<close>

function sub_page_numbers :: "string \<Rightarrow> string" where
  "sub_page_numbers [] = []"
| "sub_page_numbers (c # cs) =
     (if c = newline \<and> takeWhile is_digit cs \<noteq> [] \<and>
         (case dropWhile is_digit cs of [] \<Rightarrow> False | d # _ \<Rightarrow> d = newline)
      then newline # sub_page_numbers (tl (dropWhile is_digit cs))
      else c # sub_page_numbers cs)"
  by pat_completeness auto
termination
proof (relation "measure length")
  fix c :: char and cs :: string
  have "length (tl (dropWhile is_digit cs)) \<le> length cs"
    using length_dropWhile_le [of is_digit cs] by simp
  then show "(tl (dropWhile is_digit cs), c # cs) \<in> measure length"
    by simp
qed simp_all

definition clean_text :: "string \<Rightarrow> string" where
  "clean_text text0 = strip (sub_page_numbers (collapse_ws False text0))"

text \<open>
  \<open>re.split(r'\n\s*\n', text)\<close>. A match starts at a line feed and, \<open>\s*\<close> being greedy
  with backtracking, ends at the last line feed of the whitespace run that follows, when
  that run holds one. \<open>after_last_newline w\<close> is what remains of the run \<open>w\<close> after its last
  line feed. \<open>cur\<close> is the piece being collected.
\<close>

definition after_last_newline :: "string \<Rightarrow> string" where
  "after_last_newline w = rev (takeWhile (\<lambda>c. c \<noteq> newline) (rev w))"

function re_split_blank :: "string \<Rightarrow> string \<Rightarrow> string list" where
  "re_split_blank cur [] = [cur]"
| "re_split_blank cur (c # cs) =
     (if c = newline \<and> newline \<in> set (takeWhile is_space cs)
      then cur # re_split_blank []
             (after_last_newline (takeWhile is_space cs) @ dropWhile is_space cs)
      else re_split_blank (cur @ [c]) cs)"
  by pat_completeness auto
termination
proof (relation "measure (\<lambda>(cur, s). length s)")
  fix cur :: string and c :: char and cs :: string
  have "length (after_last_newline (takeWhile is_space cs)) \<le> length (takeWhile is_space cs)"
    unfolding after_last_newline_def
    using length_takeWhile_le [of "\<lambda>c. c \<noteq> newline" "rev (takeWhile is_space cs)"] by simp
  moreover have "length (takeWhile is_space cs) + length (dropWhile is_space cs) = length cs"
    by (metis length_append takeWhile_dropWhile_id)
  ultimately show
    "(([], after_last_newline (takeWhile is_space cs) @ dropWhile is_space cs), (cur, c # cs))
       \<in> measure (\<lambda>(cur, s). length s)"
    by simp
qed simp_all

text \<open>\<open>split_into_paragraphs\<close>: split, strip, keep the pieces longer than 50.\<close>

definition split_into_paragraphs :: "string \<Rightarrow> string list" where
  "split_into_paragraphs text0 =
     map strip (filter (\<lambda>p. length (strip p) > 50) (re_split_blank [] text0))"

text \<open>
  The packing loop of \<open>split_into_chunks\<close> (\<open>use_paragraphs=True\<close>): \<open>chunks\<close> and
  \<open>current_chunk\<close> are the loop's two variables; the base case is the code after the loop.
\<close>

fun pack_paragraphs :: "int \<Rightarrow> string list \<Rightarrow> string list \<Rightarrow> string \<Rightarrow> string list" where
  "pack_paragraphs chunk_size [] chunks current_chunk =
     (if current_chunk \<noteq> [] then chunks @ [strip current_chunk] else chunks)"
| "pack_paragraphs chunk_size (para # paras) chunks current_chunk =
     (if int (length current_chunk) + int (length para) < chunk_size
      then pack_paragraphs chunk_size paras chunks (current_chunk @ para @ [newline, newline])
      else pack_paragraphs chunk_size paras
             (if current_chunk \<noteq> [] then chunks @ [strip current_chunk] else chunks)
             (para @ [newline, newline]))"

text \<open>
  \<open>split_into_chunks(text)\<close> with its default \<open>use_paragraphs=True\<close>, the only mode
  \<open>process_document\<close> uses. \<open>chunk_size\<close> is the processor's \<open>self.chunk_size\<close>.
\<close>

definition split_into_chunks :: "int \<Rightarrow> string \<Rightarrow> string list" where
  "split_into_chunks chunk_size text0 =
     pack_paragraphs chunk_size (split_into_paragraphs text0) [] []"

text \<open>\<open>DocumentProcessor.__init__\<close>: \<open>self.chunk_size = chunk_size or settings.CHUNK_SIZE\<close>.\<close>

definition processor_chunk_size :: "settings \<Rightarrow> int option \<Rightarrow> int" where
  "processor_chunk_size cfg chunk_size = or_int chunk_size (CHUNK_SIZE cfg)"


subsection \<open>Documents and chunks\<close>

text \<open>
  What the chunker and the pipeline take from outside the repository: the file system
  (\<open>pathlib\<close>, \<open>open\<close>), PyPDF2 (\<open>pdf_reader = None\<close> when the import failed; otherwise the
  texts of the pages, the empty string standing for a page without text), \<open>uuid.uuid4\<close> and
  the sentence-transformer model (\<open>encode\<close> for one text, \<open>encode_batch\<close> for a list).
\<close>

record env =
  path_exists :: "string \<Rightarrow> bool"
  path_suffix_lower :: "string \<Rightarrow> string"
  path_name :: "string \<Rightarrow> string"
  read_text :: "string \<Rightarrow> exn + string"
  pdf_reader :: "(string \<Rightarrow> exn + string list) option"
  uuid4 :: string
  encode :: "string \<Rightarrow> exn + real list"
  encode_batch :: "string list \<Rightarrow> exn + real list list"

text \<open>\<open>@dataclass DocumentChunk\<close>: \<open>text\<close>, \<open>chunk_index\<close>, \<open>metadata\<close>.\<close>

record document_chunk =
  dc_text :: string
  chunk_index :: nat
  dc_metadata :: metadata

definition extract_text_from_pdf :: "env \<Rightarrow> string \<Rightarrow> exn + string" where
  "extract_text_from_pdf e pdf_path =
     (case pdf_reader e of
        None \<Rightarrow> Inl ImportError
      | Some reader \<Rightarrow>
          (case reader pdf_path of
             Inl err \<Rightarrow> Inr []
           | Inr pages \<Rightarrow>
               Inr (concat (map (\<lambda>page_text. page_text @ [newline, newline])
                              (filter (\<lambda>page_text. page_text \<noteq> []) pages)))))"

definition extract_text_from_txt :: "env \<Rightarrow> string \<Rightarrow> string" where
  "extract_text_from_txt e txt_path =
     (case read_text e txt_path of Inl err \<Rightarrow> [] | Inr text0 \<Rightarrow> text0)"

definition extract_text :: "env \<Rightarrow> string \<Rightarrow> exn + string" where
  "extract_text e file_path =
     (if \<not> path_exists e file_path then Inr []
      else if path_suffix_lower e file_path = ''.pdf'' then extract_text_from_pdf e file_path
      else if path_suffix_lower e file_path \<in> {''.txt'', ''.md''}
        then Inr (extract_text_from_txt e file_path)
      else Inr (extract_text_from_txt e file_path))"

text \<open>The dictionary literal that \<open>process_document\<close> builds for one chunk.\<close>

definition chunk_metadata :: "metadata \<Rightarrow> string \<Rightarrow> nat \<Rightarrow> nat \<Rightarrow> string \<Rightarrow> metadata" where
  "chunk_metadata base_metadata paper_id0 idx n text0 =
     AList.update ''chunk_text'' (MStr text0)
       (AList.update ''total_chunks'' (MInt (int n))
          (AList.update ''chunk_index'' (MInt (int idx))
             (AList.update ''paper_id'' (MStr paper_id0) base_metadata)))"

text \<open>
  The loop of \<open>process_document\<close> over \<open>enumerate(chunks)\<close>, which turns the chunk
  texts into \<open>DocumentChunk\<close> objects.
\<close>

definition document_chunks :: "metadata \<Rightarrow> string \<Rightarrow> string list \<Rightarrow> document_chunk list" where
  "document_chunks base_metadata paper_id0 chunks =
     map (\<lambda>(idx, text0).
            \<lparr> dc_text = text0, chunk_index = idx,
              dc_metadata = chunk_metadata base_metadata paper_id0 idx (length chunks) text0 \<rparr>)
         (enumerate 0 chunks)"

text \<open>
  \<open>process_document\<close>; \<open>chunk_size\<close> is the processor's \<open>self.chunk_size\<close>. The only
  exception that leaves it is the ImportError of a PDF without PyPDF2.
\<close>

definition process_document ::
  "env \<Rightarrow> int \<Rightarrow> string \<Rightarrow> string \<Rightarrow> metadata option \<Rightarrow> exn + document_chunk list" where
  "process_document e chunk_size file_path paper_id0 md =
     (case extract_text e file_path of
        Inl err \<Rightarrow> Inl err
      | Inr raw_text \<Rightarrow>
          if raw_text = [] then Inr []
          else
            (let chunks = split_into_chunks chunk_size (clean_text raw_text);
                 base_metadata = or_dict md
             in Inr (document_chunks base_metadata paper_id0 chunks)))"

section \<open>Vector store gateway (endee\_client.py)\<close>

text \<open>\<open>@dataclass VectorDocument\<close> and \<open>@dataclass SearchResult\<close>.\<close>

record vector_document =
  vd_id :: string
  vector :: "real list"
  vd_metadata :: metadata

record search_result =
  sr_id :: string
  score :: real
  sr_metadata :: metadata

text \<open>
  The decoded body of a search response, as far as \<open>EndeeClient.search\<close> looks at it:
  whether it is an object, whether it has a \<open>results\<close> key holding a list, and for
  each item whether it is an object and which of \<open>id\<close>, \<open>score\<close>, \<open>metadata\<close> it has.
  Fields that are present have the types the dataclasses annotate.
\<close>

datatype item = ItemNotDict | ItemDict "string option" "real option" "metadata option"

datatype results_field = ResultsAbsent | ResultsNotList | ResultsList "item list"

datatype json_body = NotAnObject | Object results_field

text \<open>
  An HTTP response: \<open>json = None\<close> when \<open>response.json()\<close> raises.
\<close>

record response =
  status_code :: int
  resp_text :: string
  json :: "json_body option"

text \<open>
  The requests the client sends: \<open>PUT url {index, points}\<close>,
  \<open>POST url {index, vector, k[, filter]}\<close>.
\<close>

datatype request =
    GET string
  | DELETE string
  | PUT string string "vector_document list"
  | POST string string "real list" int "metadata option"

text \<open>
  The transport (httpx and the store behind it) is any function from a request and the
  state of the outside world to a response or an exception and a new state. A connection
  pairs the world with the log of the requests sent so far.
\<close>

type_synonym 'w transport = "request \<Rightarrow> 'w \<Rightarrow> (exn + response) \<times> 'w"

type_synonym 'w conn = "request list \<times> 'w"

definition http :: "'w transport \<Rightarrow> request \<Rightarrow> 'w conn \<Rightarrow> (exn + response) \<times> 'w conn" where
  "http send req st =
     (case send req (snd st) of (r, w') \<Rightarrow> (r, (fst st @ [req], w')))"

text \<open>
  \<open>try: body except Exception: return d\<close> around a whole method body: the state reached
  when the exception was raised is kept.
\<close>

definition except_return :: "'a \<Rightarrow> (exn + 'a) \<times> 's \<Rightarrow> (exn + 'a) \<times> 's" where
  "except_return d r = (case fst r of Inl err \<Rightarrow> (Inr d, snd r) | Inr v \<Rightarrow> r)"

record endee_client =
  base_url :: string
  collection :: string

definition EndeeClient :: "settings \<Rightarrow> string option \<Rightarrow> string option \<Rightarrow> endee_client" where
  "EndeeClient cfg base_url0 collection0 =
     \<lparr> base_url = or_str base_url0 (endee_base_url cfg),
       collection = or_str collection0 (ENDEE_COLLECTION cfg) \<rparr>"

definition health_check :: "'w transport \<Rightarrow> endee_client \<Rightarrow> 'w conn \<Rightarrow> (exn + bool) \<times> 'w conn" where
  "health_check send c st =
     except_return False
       (case http send (GET (base_url c @ ''/api/v1/health'')) st of
          (Inl err, st') \<Rightarrow> (Inl err, st')
        | (Inr r, st') \<Rightarrow> (Inr (status_code r = 200), st'))"

definition create_collection :: "endee_client \<Rightarrow> bool" where
  "create_collection c = True"

definition delete_collection :: "'w transport \<Rightarrow> endee_client \<Rightarrow> 'w conn \<Rightarrow> (exn + bool) \<times> 'w conn" where
  "delete_collection send c st =
     except_return False
       (case http send (DELETE (base_url c @ ''/api/v1/index/'' @ collection c)) st of
          (Inl err, st') \<Rightarrow> (Inl err, st')
        | (Inr r, st') \<Rightarrow> (Inr (status_code r \<in> {200, 204, 404}), st'))"

text \<open>
  The slices \<open>documents[i:i + batch_size]\<close> for \<open>i\<close> in \<open>range(0, len(documents), batch_size)\<close>,
  for a positive step.
\<close>

function batches :: "nat \<Rightarrow> 'a list \<Rightarrow> 'a list list" where
  "batches n xs = (if n = 0 \<or> xs = [] then [] else take n xs # batches n (drop n xs))"
  by pat_completeness auto
termination
  by (relation "measure (\<lambda>(n, xs). length xs)") auto

text \<open>The body of the \<open>for\<close> loop of \<open>insert_vectors\<close>, one batch per step.\<close>

fun put_batches ::
  "'w transport \<Rightarrow> string \<Rightarrow> string \<Rightarrow> vector_document list list \<Rightarrow> 'w conn
     \<Rightarrow> (exn + bool) \<times> 'w conn" where
  "put_batches send url index0 [] st = (Inr True, st)"
| "put_batches send url index0 (batch # rest) st =
     (case http send (PUT url index0 batch) st of
        (Inl err, st') \<Rightarrow> (Inl err, st')
      | (Inr r, st') \<Rightarrow>
          if status_code r \<notin> {200, 201} then (Inr False, st')
          else put_batches send url index0 rest st')"

text \<open>
  \<open>insert_vectors\<close>: \<open>range\<close> raises ValueError for a zero step and is empty for a negative
  one.
\<close>

definition insert_vectors ::
  "'w transport \<Rightarrow> endee_client \<Rightarrow> vector_document list \<Rightarrow> int \<Rightarrow> 'w conn
     \<Rightarrow> (exn + bool) \<times> 'w conn" where
  "insert_vectors send c documents batch_size st =
     except_return False
       (if batch_size = 0 then (Inl ValueError, st)
        else if batch_size < 0 then (Inr True, st)
        else put_batches send (base_url c @ ''/api/v1/points'') (collection c)
               (batches (nat batch_size) documents) st)"

definition parse_item :: "item \<Rightarrow> exn + search_result" where
  "parse_item it =
     (case it of
        ItemNotDict \<Rightarrow> Inl TypeError
      | ItemDict None sc md \<Rightarrow> Inl KeyError
      | ItemDict (Some i) None md \<Rightarrow> Inl KeyError
      | ItemDict (Some i) (Some sc) md \<Rightarrow>
          Inr \<lparr> sr_id = i, score = sc, sr_metadata = (case md of None \<Rightarrow> [] | Some m \<Rightarrow> m) \<rparr>)"

text \<open>The list comprehension over \<open>data.get("results", [])\<close>: the first failing item raises.\<close>

fun parse_items :: "item list \<Rightarrow> exn + search_result list" where
  "parse_items [] = Inr []"
| "parse_items (it # its) =
     (case parse_item it of
        Inl err \<Rightarrow> Inl err
      | Inr r \<Rightarrow> (case parse_items its of Inl err \<Rightarrow> Inl err | Inr rs \<Rightarrow> Inr (r # rs)))"

definition parse_search_response :: "response \<Rightarrow> exn + search_result list" where
  "parse_search_response r =
     (if status_code r \<noteq> 200 then Inr []
      else (case json r of
              None \<Rightarrow> Inl JSONDecodeError
            | Some NotAnObject \<Rightarrow> Inl AttributeError
            | Some (Object ResultsAbsent) \<Rightarrow> Inr []
            | Some (Object ResultsNotList) \<Rightarrow> Inl TypeError
            | Some (Object (ResultsList its)) \<Rightarrow> parse_items its))"

text \<open>
  \<open>EndeeClient.search\<close>: the \<open>filter\<close> key is sent only for a truthy (non-empty) filter.
\<close>

definition endee_search ::
  "'w transport \<Rightarrow> endee_client \<Rightarrow> real list \<Rightarrow> int \<Rightarrow> metadata option \<Rightarrow> 'w conn
     \<Rightarrow> (exn + search_result list) \<times> 'w conn" where
  "endee_search send c query_vector top_k filter_metadata st =
     except_return []
       (case http send
               (POST (base_url c @ ''/api/v1/search'') (collection c) query_vector top_k
                  (case filter_metadata of
                     None \<Rightarrow> None
                   | Some f \<Rightarrow> if f = [] then None else Some f)) st of
          (Inl err, st') \<Rightarrow> (Inl err, st')
        | (Inr r, st') \<Rightarrow> (parse_search_response r, st'))"


section \<open>Embedding provider (embeddings.py)\<close>

definition embed_text :: "env \<Rightarrow> string \<Rightarrow> exn + real list" where
  "embed_text e text0 = encode e text0"

definition embed_batch :: "env \<Rightarrow> string list \<Rightarrow> exn + real list list" where
  "embed_batch e texts = (if texts = [] then Inr [] else encode_batch e texts)"

text \<open>
  \<open>compute_similarity\<close> works on numpy float64 values. A value is a finite number, an
  infinity or NaN. The result of an operation on finite values overflows to an infinity
  from \<open>2 ^ 1024\<close> on; below that bound it is kept exact (the rounding to 53 bits and the
  sign of zero are not modelled). Operations on infinities and NaN follow IEEE 754, and
  numpy's division by zero gives an infinity or NaN and a warning, not an exception.
\<close>

datatype float64 = Fin real | PInf | NInf | NaN

definition overflow :: "real \<Rightarrow> float64" where
  "overflow r = (if r \<ge> 2 ^ 1024 then PInf else if r \<le> - (2 ^ 1024) then NInf else Fin r)"

fun fneg :: "float64 \<Rightarrow> float64" where
  "fneg (Fin a) = Fin (- a)"
| "fneg PInf = NInf"
| "fneg NInf = PInf"
| "fneg NaN = NaN"

text \<open>An infinity with the sign of the finite factor \<open>a\<close>; zero times infinity is NaN.\<close>

definition signed_inf :: "real \<Rightarrow> float64 \<Rightarrow> float64" where
  "signed_inf a infinity = (if a = 0 then NaN else if a > 0 then infinity else fneg infinity)"

fun fmul :: "float64 \<Rightarrow> float64 \<Rightarrow> float64" where
  "fmul NaN y = NaN"
| "fmul x NaN = NaN"
| "fmul (Fin a) (Fin b) = overflow (a * b)"
| "fmul (Fin a) PInf = signed_inf a PInf"
| "fmul (Fin a) NInf = signed_inf a NInf"
| "fmul PInf (Fin b) = signed_inf b PInf"
| "fmul NInf (Fin b) = signed_inf b NInf"
| "fmul PInf PInf = PInf"
| "fmul PInf NInf = NInf"
| "fmul NInf PInf = NInf"
| "fmul NInf NInf = PInf"

fun fadd :: "float64 \<Rightarrow> float64 \<Rightarrow> float64" where
  "fadd NaN y = NaN"
| "fadd x NaN = NaN"
| "fadd (Fin a) (Fin b) = overflow (a + b)"
| "fadd (Fin a) PInf = PInf"
| "fadd (Fin a) NInf = NInf"
| "fadd PInf (Fin b) = PInf"
| "fadd NInf (Fin b) = NInf"
| "fadd PInf PInf = PInf"
| "fadd PInf NInf = NaN"
| "fadd NInf PInf = NaN"
| "fadd NInf NInf = NInf"

fun fdiv :: "float64 \<Rightarrow> float64 \<Rightarrow> float64" where
  "fdiv NaN y = NaN"
| "fdiv x NaN = NaN"
| "fdiv (Fin a) (Fin b) = (if b = 0 then signed_inf a PInf else overflow (a / b))"
| "fdiv (Fin a) PInf = Fin 0"
| "fdiv (Fin a) NInf = Fin 0"
| "fdiv PInf (Fin b) = (if b < 0 then NInf else PInf)"
| "fdiv NInf (Fin b) = (if b < 0 then PInf else NInf)"
| "fdiv PInf PInf = NaN"
| "fdiv PInf NInf = NaN"
| "fdiv NInf PInf = NaN"
| "fdiv NInf NInf = NaN"

fun fsqrt :: "float64 \<Rightarrow> float64" where
  "fsqrt (Fin a) = (if a < 0 then NaN else Fin (sqrt a))"
| "fsqrt PInf = PInf"
| "fsqrt NInf = NaN"
| "fsqrt NaN = NaN"

text \<open>The truth value of a float: only zero is falsy, so NaN is truthy.\<close>

definition truthy :: "float64 \<Rightarrow> bool" where
  "truthy x \<longleftrightarrow> x \<noteq> Fin 0"

text \<open>The comparison \<open>==\<close> of two floats: NaN is equal to nothing, itself included.\<close>

definition float_eq :: "float64 \<Rightarrow> float64 \<Rightarrow> bool" where
  "float_eq x y \<longleftrightarrow> x \<noteq> NaN \<and> y \<noteq> NaN \<and> x = y"

text \<open>
  The sum of the products of the paired elements, accumulated from the left.
  \<open>np.dot\<close> of two one-dimensional arrays raises ValueError when their lengths differ;
  \<open>np.linalg.norm\<close> of a one-dimensional array is \<open>sqrt(x.dot(x))\<close>.
\<close>

definition sum_products :: "float64 list \<Rightarrow> float64 list \<Rightarrow> float64" where
  "sum_products v1 v2 = foldl fadd (Fin 0) (map (\<lambda>(x, y). fmul x y) (zip v1 v2))"

definition np_dot :: "float64 list \<Rightarrow> float64 list \<Rightarrow> exn + float64" where
  "np_dot v1 v2 = (if length v1 \<noteq> length v2 then Inl ValueError else Inr (sum_products v1 v2))"

definition np_norm :: "float64 list \<Rightarrow> float64" where
  "np_norm v = fsqrt (sum_products v v)"

definition compute_similarity :: "float64 list \<Rightarrow> float64 list \<Rightarrow> exn + float64" where
  "compute_similarity embedding1 embedding2 =
     (let denom = fmul (np_norm embedding1) (np_norm embedding2)
      in if truthy denom
         then (case np_dot embedding1 embedding2 of
                 Inl err \<Rightarrow> Inl err
               | Inr d \<Rightarrow> Inr (fdiv d denom))
         else Inr (Fin 0))"

section \<open>Ingestion pipeline (ingestion.py)\<close>

text \<open>\<open>str(n)\<close> for a non-negative integer: its decimal digits.\<close>

definition digit_char :: "nat \<Rightarrow> char" where
  "digit_char d = char_of (48 + d)"

function str_nat :: "nat \<Rightarrow> string" where
  "str_nat n = (if n < 10 then [digit_char n] else str_nat (n div 10) @ [digit_char (n mod 10)])"
  by pat_completeness auto
termination
  by (relation "measure id") auto

text \<open>The id of a stored vector record: \<open>f"{paper_id}_chunk_{chunk.chunk_index}"\<close>.\<close>

definition vector_id :: "string \<Rightarrow> nat \<Rightarrow> string" where
  "vector_id paper_id0 idx = paper_id0 @ ''_chunk_'' @ str_nat idx"

text \<open>The loop over \<open>zip(chunks, embeddings)\<close> that builds the records.\<close>

definition build_vectors ::
  "string \<Rightarrow> document_chunk list \<Rightarrow> real list list \<Rightarrow> vector_document list" where
  "build_vectors paper_id0 chunks embeddings =
     map (\<lambda>(chunk, embedding).
            \<lparr> vd_id = vector_id paper_id0 (chunk_index chunk), vector = embedding,
              vd_metadata = dc_metadata chunk \<rparr>)
         (zip chunks embeddings)"

text \<open>
  \<open>ingest_single_paper\<close>. \<open>chunk_size\<close> is the chunk size of the pipeline's document
  processor. The effective paper id is \<open>paper_id or str(uuid.uuid4())\<close>.
\<close>

definition effective_paper_id :: "env \<Rightarrow> string option \<Rightarrow> string" where
  "effective_paper_id e paper_id0 = or_str paper_id0 (uuid4 e)"

definition ingest_metadata :: "env \<Rightarrow> string \<Rightarrow> metadata option \<Rightarrow> metadata" where
  "ingest_metadata e file_path md =
     AList.update ''file_name'' (MStr (path_name e file_path))
       (AList.update ''file_path'' (MStr file_path) (or_dict md))"

definition ingest_single_paper ::
  "env \<Rightarrow> 'w transport \<Rightarrow> endee_client \<Rightarrow> int \<Rightarrow> string \<Rightarrow> string option \<Rightarrow> metadata option
     \<Rightarrow> 'w conn \<Rightarrow> (exn + bool) \<times> 'w conn" where
  "ingest_single_paper e send c chunk_size file_path paper_id0 md st =
     except_return False
       (let pid = effective_paper_id e paper_id0;
            md' = ingest_metadata e file_path md
        in case process_document e chunk_size file_path pid (Some md') of
             Inl err \<Rightarrow> (Inl err, st)
           | Inr chunks \<Rightarrow>
               if chunks = [] then (Inr False, st)
               else (case embed_batch e (map dc_text chunks) of
                       Inl err \<Rightarrow> (Inl err, st)
                     | Inr embeddings \<Rightarrow>
                         insert_vectors send c (build_vectors pid chunks embeddings) 100 st))"

section \<open>Retrieval engine (search\_engine.py)\<close>

text \<open>
  \<open>@dataclass SearchMatch\<close>. The fields read from the metadata hold whatever value the
  metadata holds (the annotations are not enforced), so they are metadata values.
\<close>

record search_match =
  paper_id :: mval
  paper_title :: mval
  chunk_text :: mval
  sm_chunk_index :: mval
  similarity_score :: real
  sm_metadata :: metadata

text \<open>\<open>d.get(k, default)\<close>; \<open>d.get(k)\<close> is \<open>map_of d k\<close>, \<open>None\<close> when the key is missing.\<close>

definition dict_get :: "metadata \<Rightarrow> string \<Rightarrow> mval \<Rightarrow> mval" where
  "dict_get d k dflt = (case map_of d k of None \<Rightarrow> dflt | Some v \<Rightarrow> v)"

definition convert_to_search_match :: "search_result \<Rightarrow> search_match option" where
  "convert_to_search_match result =
     Some \<lparr> paper_id = dict_get (sr_metadata result) ''paper_id'' (MStr ''unknown''),
            paper_title = dict_get (sr_metadata result) ''title'' (MStr ''Untitled''),
            chunk_text = dict_get (sr_metadata result) ''chunk_text'' (MStr []),
            sm_chunk_index = dict_get (sr_metadata result) ''chunk_index'' (MInt 0),
            similarity_score = score result,
            sm_metadata = sr_metadata result \<rparr>"

record search_engine =
  endee :: endee_client
  top_k_default :: int

text \<open>\<open>SearchEngine.__init__\<close>: \<open>self.top_k = top_k or settings.TOP_K_RESULTS\<close>.\<close>

definition SearchEngine :: "settings \<Rightarrow> endee_client \<Rightarrow> int option \<Rightarrow> search_engine" where
  "SearchEngine cfg c top_k = \<lparr> endee = c, top_k_default = or_int top_k (TOP_K_RESULTS cfg) \<rparr>"

text \<open>Step 3 of \<open>search\<close>: the loop over \<open>raw_results\<close> with the list \<open>matches\<close>.\<close>

fun threshold_loop :: "real \<Rightarrow> search_result list \<Rightarrow> search_match list \<Rightarrow> search_match list" where
  "threshold_loop threshold [] matches = matches"
| "threshold_loop threshold (result # rest) matches =
     (if score result \<ge> threshold
      then (case convert_to_search_match result of
              Some m \<Rightarrow> threshold_loop threshold rest (matches @ [m])
            | None \<Rightarrow> threshold_loop threshold rest matches)
      else threshold_loop threshold rest matches)"

definition search ::
  "settings \<Rightarrow> env \<Rightarrow> 'w transport \<Rightarrow> search_engine \<Rightarrow> string \<Rightarrow> int option
     \<Rightarrow> metadata option \<Rightarrow> real option \<Rightarrow> 'w conn \<Rightarrow> (exn + search_match list) \<times> 'w conn" where
  "search cfg e send eng query top_k filter_metadata min_similarity st =
     except_return []
       (let k = or_int top_k (top_k_default eng);
            threshold = or_float min_similarity (SIMILARITY_THRESHOLD cfg)
        in case embed_text e query of
             Inl err \<Rightarrow> (Inl err, st)
           | Inr query_embedding \<Rightarrow>
               (case endee_search send (endee eng) query_embedding k filter_metadata st of
                  (Inl err, st') \<Rightarrow> (Inl err, st')
                | (Inr raw_results, st') \<Rightarrow>
                    (Inr (threshold_loop threshold raw_results []), st')))"

text \<open>
  The loop of \<open>find_related_papers\<close> over \<open>raw_results\<close>, with \<open>matches\<close> and
  \<open>seen_papers\<close>. \<open>result_paper_id\<close> is \<open>result.metadata.get("paper_id")\<close>, \<open>None\<close> when
  the key is missing. The \<open>break\<close> test is reached only when no \<open>continue\<close> was taken.
\<close>

fun related_loop ::
  "string \<Rightarrow> int \<Rightarrow> search_result list \<Rightarrow> search_match list \<Rightarrow> mval option set
     \<Rightarrow> search_match list" where
  "related_loop seed top_k [] matches seen_papers = matches"
| "related_loop seed top_k (result # rest) matches seen_papers =
     (let result_paper_id = map_of (sr_metadata result) ''paper_id''
      in if result_paper_id = Some (MStr seed) then related_loop seed top_k rest matches seen_papers
         else if result_paper_id \<in> seen_papers
           then related_loop seed top_k rest matches seen_papers
         else (case convert_to_search_match result of
                 Some m \<Rightarrow>
                   if int (length (matches @ [m])) \<ge> top_k then matches @ [m]
                   else related_loop seed top_k rest (matches @ [m])
                          (insert result_paper_id seen_papers)
               | None \<Rightarrow>
                   if int (length matches) \<ge> top_k then matches
                   else related_loop seed top_k rest matches seen_papers))"

text \<open>
  A fetch-by-id method, were the client to have one: given an id it returns \<open>None\<close> or
  the stored record as a dictionary with a \<open>vector\<close> key. \<open>class EndeeClient\<close> defines
  \<open>health_check\<close>, \<open>create_collection\<close>, \<open>delete_collection\<close>, \<open>insert_vectors\<close> and
  \<open>search\<close> and no \<open>get_vector\<close>: looking the attribute up raises AttributeError.
\<close>

type_synonym 'w get_vector =
  "string \<Rightarrow> 'w conn \<Rightarrow> (exn + (string \<times> real list) list option) \<times> 'w conn"

definition EndeeClient_get_vector :: "'w get_vector option" where
  "EndeeClient_get_vector = None"

text \<open>
  \<open>find_related_papers\<close> for a client whose attribute \<open>get_vector\<close> is \<open>gv\<close>
  (\<open>None\<close>: no such attribute). \<open>not vector_data\<close> holds for \<open>None\<close> and for an empty
  dictionary.
\<close>

definition find_related_papers_with ::
  "'w get_vector option \<Rightarrow> 'w transport \<Rightarrow> search_engine \<Rightarrow> string \<Rightarrow> int \<Rightarrow> 'w conn
     \<Rightarrow> (exn + search_match list) \<times> 'w conn" where
  "find_related_papers_with gv send eng seed top_k st =
     except_return []
       (case gv of
          None \<Rightarrow> (Inl AttributeError, st)
        | Some get_vector \<Rightarrow>
            (case get_vector (seed @ ''_chunk_0'') st of
               (Inl err, st') \<Rightarrow> (Inl err, st')
             | (Inr None, st') \<Rightarrow> (Inr [], st')
             | (Inr (Some vector_data), st') \<Rightarrow>
                 if vector_data = [] then (Inr [], st')
                 else
                   (let query_vector =
                          (case map_of vector_data ''vector'' of None \<Rightarrow> [] | Some v \<Rightarrow> v)
                    in case endee_search send (endee eng) query_vector (top_k * 3) None st' of
                         (Inl err, st'') \<Rightarrow> (Inl err, st'')
                       | (Inr raw_results, st'') \<Rightarrow>
                           (Inr (related_loop seed top_k raw_results [] {}), st''))))"

text \<open>\<open>SearchEngine.find_related_papers\<close> on the repository's \<open>EndeeClient\<close>.\<close>

definition find_related_papers ::
  "'w transport \<Rightarrow> search_engine \<Rightarrow> string \<Rightarrow> int \<Rightarrow> 'w conn
     \<Rightarrow> (exn + search_match list) \<times> 'w conn" where
  "find_related_papers send eng seed top_k st =
     find_related_papers_with EndeeClient_get_vector send eng seed top_k st"

text \<open>
  \<open>aggregate_results_by_paper\<close>. A Python \<open>dict\<close> keeps its keys in insertion order: the
  dictionary \<open>aggregated\<close> is an association list. \<open>group_step\<close> is the body of the first
  loop. \<open>list.sort(key=..., reverse=True)\<close> is a stable sort in descending key order
  (equal keys keep their order), which is \<open>sort_key\<close> on the negated key.
\<close>

definition group_step ::
  "(mval \<times> search_match list) list \<Rightarrow> search_match \<Rightarrow> (mval \<times> search_match list) list" where
  "group_step aggregated m =
     (let aggregated' =
            (if paper_id m \<notin> fst ` set aggregated then aggregated @ [(paper_id m, [])]
             else aggregated)
      in map (\<lambda>(k, ms). if k = paper_id m then (k, ms @ [m]) else (k, ms)) aggregated')"

definition sort_by_score_desc :: "search_match list \<Rightarrow> search_match list" where
  "sort_by_score_desc ms = sort_key (\<lambda>m. - similarity_score m) ms"

definition aggregate_results_by_paper ::
  "search_match list \<Rightarrow> (mval \<times> search_match list) list" where
  "aggregate_results_by_paper matches =
     map (\<lambda>(k, ms). (k, sort_by_score_desc ms)) (foldl group_step [] matches)"

text \<open>
  The keys the specification asks for: the distinct paper ids in the order of their
  first occurrence.
\<close>

fun first_encounter_order :: "'a list \<Rightarrow> 'a list" where
  "first_encounter_order [] = []"
| "first_encounter_order (x # xs) = x # first_encounter_order (filter (\<lambda>y. y \<noteq> x) xs)"


section \<open>Concrete collaborators used to instantiate the theorems\<close>

text \<open>
  A file system with a text file of sixty letters, a text file of three paragraphs of
  sixty letters separated by blank lines and an empty file, no PyPDF2, and an embedding
  model that maps every text to the same two-dimensional vector.
\<close>

definition example_env :: env where
  "example_env =
     \<lparr> path_exists = (\<lambda>p. p \<in> {''a.txt'', ''three.txt'', ''empty.txt''}),
       path_suffix_lower = (\<lambda>p. ''.txt''),
       path_name = (\<lambda>p. p),
       read_text =
         (\<lambda>p. if p = ''a.txt'' then Inr (replicate 60 (CHR ''A''))
              else if p = ''three.txt''
                then Inr (replicate 60 (CHR ''A'') @ [newline, newline]
                            @ replicate 60 (CHR ''B'') @ [newline, newline]
                            @ replicate 60 (CHR ''C''))
              else Inr []),
       pdf_reader = None,
       uuid4 = ''uuid-1'',
       encode = (\<lambda>t. Inr [1, 0]),
       encode_batch = (\<lambda>ts. Inr (map (\<lambda>t. [1, 0]) ts)) \<rparr>"

text \<open>
  A transport error or a response whose status is not 2xx.
\<close>

definition failed :: "exn + response \<Rightarrow> bool" where
  "failed r =
     (case r of
        Inl err \<Rightarrow> True
      | Inr resp \<Rightarrow> \<not> (200 \<le> status_code resp \<and> status_code resp < 300))"

text \<open>
  A store that goes down: the health probe cannot connect, a deletion is answered with
  404 and a search with 503; the first write of a connection is accepted with 201 and
  every later one refused with 500. The world counts the requests.
\<close>

definition failing_send :: "nat transport" where
  "failing_send req w =
     (case req of
        GET url \<Rightarrow> Inl TransportError
      | DELETE url \<Rightarrow> Inr \<lparr> status_code = 404, resp_text = ''not found'', json = None \<rparr>
      | PUT url index0 points \<Rightarrow>
          Inr \<lparr> status_code = (if w = 0 then 201 else 500), resp_text = ''error'', json = None \<rparr>
      | POST url index0 v k f \<Rightarrow> Inr \<lparr> status_code = 503, resp_text = ''busy'', json = None \<rparr>,
      Suc w)"

text \<open>
  A store that accepts every write and answers every search with the first \<open>k\<close> of the
  given hits.
\<close>

definition store_send :: "item list \<Rightarrow> nat transport" where
  "store_send hits req w =
     (case req of
        GET url \<Rightarrow> Inr \<lparr> status_code = 200, resp_text = ''ok'', json = None \<rparr>
      | DELETE url \<Rightarrow> Inr \<lparr> status_code = 204, resp_text = [], json = None \<rparr>
      | PUT url index0 points \<Rightarrow> Inr \<lparr> status_code = 200, resp_text = ''ok'', json = None \<rparr>
      | POST url index0 v k f \<Rightarrow>
          Inr \<lparr> status_code = 200, resp_text = ''ok'',
                json = Some (Object (ResultsList (take (nat k) hits))) \<rparr>,
      Suc w)"

definition example_client :: endee_client where
  "example_client = EndeeClient default_settings None None"

definition example_engine :: search_engine where
  "example_engine = SearchEngine default_settings example_client None"

text \<open>Two stored chunks of two papers, as a search response lists them (best first).\<close>

definition example_hits :: "item list" where
  "example_hits =
     [ItemDict (Some ''pb_chunk_0'') (Some 0.6) (Some [(''paper_id'', MStr ''pb'')]),
      ItemDict (Some ''pa_chunk_0'') (Some 0.4) (Some [(''paper_id'', MStr ''pa'')])]"

text \<open>The match that \<open>_convert_to_search_match\<close> builds for such a hit.\<close>

definition example_match :: "string \<Rightarrow> real \<Rightarrow> search_match" where
  "example_match pid s =
     \<lparr> paper_id = MStr pid, paper_title = MStr ''Untitled'', chunk_text = MStr [],
       sm_chunk_index = MInt 0, similarity_score = s,
       sm_metadata = [(''paper_id'', MStr pid)] \<rparr>"

text \<open>Metadata given by a caller, with a paper id of its own, and three chunks.\<close>

definition example_base_metadata :: metadata where
  "example_base_metadata = [(''paper_id'', MStr ''other''), (''title'', MStr ''T'')]"

definition example_chunks :: "document_chunk list" where
  "example_chunks =
     [\<lparr> dc_text = ''first'', chunk_index = 0, dc_metadata = [(''paper_id'', MStr ''p1'')] \<rparr>,
      \<lparr> dc_text = ''second'', chunk_index = 1, dc_metadata = [(''paper_id'', MStr ''p1'')] \<rparr>,
      \<lparr> dc_text = ''third'', chunk_index = 12, dc_metadata = [(''paper_id'', MStr ''p1'')] \<rparr>]"

definition example_embeddings :: "real list list" where
  "example_embeddings = [[1, 0], [0, 1], [1, 1]]"

text \<open>A float whose square overflows: \<open>2 ^ 700\<close>, about \<open>5.3e210\<close>.\<close>

definition huge :: real where
  "huge = 2 ^ 700"

text \<open>The state of the outside world after the given requests were sent in turn.\<close>

fun world_after :: "'w transport \<Rightarrow> request list \<Rightarrow> 'w \<Rightarrow> 'w" where
  "world_after send [] w = w"
| "world_after send (req # reqs) w = world_after send reqs (snd (send req w))"

text \<open>The number a string of decimal digits denotes, to read back what \<open>str\<close> wrote.\<close>

definition decimal_value :: "string \<Rightarrow> nat" where
  "decimal_value s = foldl (\<lambda>a c. 10 * a + (of_char c - 48)) 0 s"

text \<open>
  The grouping the specification describes, to compare with the first loop of
  \<open>aggregate_results_by_paper\<close>: one group per distinct paper id, in the order of first
  occurrence, holding the matches of that paper in their original order.
\<close>

definition groups_of :: "search_match list \<Rightarrow> (mval \<times> search_match list) list" where
  "groups_of matches =
     map (\<lambda>k. (k, filter (\<lambda>m. paper_id m = k) matches))
         (first_encounter_order (map paper_id matches))"

section \<open>Properties of the chunker\<close>

declare str_nat.simps [simp del]
declare batches.simps [simp del]
declare re_split_blank.simps [simp del]
declare sub_page_numbers.simps [simp del]

lemma split_into_paragraphs_filter:
  "split_into_paragraphs text0
     = filter (\<lambda>p. 50 < length p) (map strip (re_split_blank [] text0))"
  by (simp add: split_into_paragraphs_def filter_map comp_def)

lemma scenario_chunks:
  "split_into_chunks (processor_chunk_size default_settings (Some 150))
     (replicate 60 (CHR ''A'') @ [newline, newline] @ replicate 60 (CHR ''B'')
        @ [newline, newline] @ replicate 60 (CHR ''C''))
   = [replicate 60 (CHR ''A'') @ [newline, newline] @ replicate 60 (CHR ''B''),
      replicate 60 (CHR ''C'')]"
  by code_simp

lemma scenario_chunks_with_short_paragraph:
  "split_into_chunks (processor_chunk_size default_settings (Some 150))
     (replicate 60 (CHR ''A'') @ [newline, newline] @ replicate 50 (CHR ''x'')
        @ [newline, newline] @ replicate 60 (CHR ''B'')
        @ [newline, newline] @ replicate 60 (CHR ''C''))
   = [replicate 60 (CHR ''A'') @ [newline, newline] @ replicate 60 (CHR ''B''),
      replicate 60 (CHR ''C'')]"
  by code_simp

text \<open>
  Called on the text as it is in the file, \<open>split_into_chunks\<close> with chunk size 150
  splits the three paragraphs into two chunks, drops a paragraph of fifty characters, and
  for every text packs exactly the stripped pieces of more than fifty characters.
\<close>

lemma direct_split_three_paragraphs:
  "split_into_chunks (processor_chunk_size default_settings (Some 150))
     (replicate 60 (CHR ''A'') @ [newline, newline] @ replicate 60 (CHR ''B'')
        @ [newline, newline] @ replicate 60 (CHR ''C''))
   = [replicate 60 (CHR ''A'') @ [newline, newline] @ replicate 60 (CHR ''B''),
      replicate 60 (CHR ''C'')]
   \<and> split_into_chunks (processor_chunk_size default_settings (Some 150))
     (replicate 60 (CHR ''A'') @ [newline, newline] @ replicate 50 (CHR ''x'')
        @ [newline, newline] @ replicate 60 (CHR ''B'')
        @ [newline, newline] @ replicate 60 (CHR ''C''))
   = [replicate 60 (CHR ''A'') @ [newline, newline] @ replicate 60 (CHR ''B''),
      replicate 60 (CHR ''C'')]
   \<and> split_into_chunks chunk_size text0
     = pack_paragraphs chunk_size
         (filter (\<lambda>p. 50 < length p) (map strip (re_split_blank [] text0))) [] []"
  using scenario_chunks scenario_chunks_with_short_paragraph
  by (simp add: split_into_chunks_def split_into_paragraphs_filter)

text \<open>
  Inside \<open>process_document\<close>, the only caller, the text first goes through \<open>clean_text\<close>,
  whose first substitution turns every line feed into a space: the cleaned text has no
  blank line left, and a document gives at most one chunk.
\<close>

lemma collapse_ws_no_newline: "newline \<notin> set (collapse_ws b s)"
  by (induction b s rule: collapse_ws.induct) (auto simp: is_space_def newline_def)

lemma sub_page_numbers_id: "newline \<notin> set s \<Longrightarrow> sub_page_numbers s = s"
  by (induction s) (auto simp: sub_page_numbers.simps)

lemma set_strip: "set (strip s) \<subseteq> set s"
  unfolding strip_def by (auto dest!: set_dropWhileD)

lemma clean_text_no_newline: "newline \<notin> set (clean_text s)"
  using set_strip [of "sub_page_numbers (collapse_ws False s)"]
  by (auto simp: clean_text_def sub_page_numbers_id collapse_ws_no_newline)

lemma re_split_blank_no_newline:
  "newline \<notin> set s \<Longrightarrow> re_split_blank cur s = [cur @ s]"
  by (induction s arbitrary: cur) (auto simp: re_split_blank.simps)

lemma pack_paragraphs_single:
  "length paras \<le> 1 \<Longrightarrow> length (pack_paragraphs chunk_size paras [] []) \<le> 1"
  by (cases paras) auto

lemma split_into_chunks_no_newline:
  "newline \<notin> set s \<Longrightarrow> length (split_into_chunks chunk_size s) \<le> 1"
  unfolding split_into_chunks_def
  by (rule pack_paragraphs_single) (simp add: split_into_paragraphs_def re_split_blank_no_newline)

lemma length_document_chunks [simp]:
  "length (document_chunks base pid texts) = length texts"
  by (simp add: document_chunks_def)

lemma process_document_at_most_one_chunk:
  assumes "process_document e chunk_size file_path pid md = Inr chunks"
  shows "length chunks \<le> 1"
proof -
  have one: "length (split_into_chunks chunk_size (clean_text t)) \<le> Suc 0" for t
    using split_into_chunks_no_newline [OF clean_text_no_newline, of chunk_size t] by simp
  show ?thesis
    using assms one
    by (auto simp: process_document_def Let_def split: sum.splits if_splits)
qed

lemma cleaned_scenario:
  "clean_text (replicate 60 (CHR ''A'') @ [newline, newline] @ replicate 60 (CHR ''B'')
        @ [newline, newline] @ replicate 60 (CHR ''C''))
   = replicate 60 (CHR ''A'') @ '' '' @ replicate 60 (CHR ''B'') @ '' ''
        @ replicate 60 (CHR ''C'')"
  by code_simp

lemma process_document_three_paragraphs:
  "process_document example_env (processor_chunk_size default_settings (Some 150)) ''three.txt''
     ''p1'' None
   = Inr [\<lparr> dc_text = replicate 60 (CHR ''A'') @ '' '' @ replicate 60 (CHR ''B'') @ '' ''
                         @ replicate 60 (CHR ''C''),
            chunk_index = 0,
            dc_metadata =
              [(''paper_id'', MStr ''p1''), (''chunk_index'', MInt 0), (''total_chunks'', MInt 1),
               (''chunk_text'',
                MStr (replicate 60 (CHR ''A'') @ '' '' @ replicate 60 (CHR ''B'') @ '' ''
                        @ replicate 60 (CHR ''C'')))] \<rparr>]"
  by code_simp

text \<open>
  C3. Chunking the document of three paragraphs of sixty characters with chunk size 150
  does not give two chunks: \<open>clean_text\<close> joins the paragraphs with single spaces, and
  \<open>process_document\<close> returns one chunk of 182 characters holding all three. (The
  direct call of \<open>split_into_chunks\<close> on the uncleaned text would give the two chunks.)
\<close>

theorem chunking_document_gives_one_chunk:
  "process_document example_env (processor_chunk_size default_settings (Some 150)) ''three.txt''
     ''p1'' None
   = Inr [\<lparr> dc_text = replicate 60 (CHR ''A'') @ '' '' @ replicate 60 (CHR ''B'') @ '' ''
                         @ replicate 60 (CHR ''C''),
            chunk_index = 0,
            dc_metadata =
              [(''paper_id'', MStr ''p1''), (''chunk_index'', MInt 0), (''total_chunks'', MInt 1),
               (''chunk_text'',
                MStr (replicate 60 (CHR ''A'') @ '' '' @ replicate 60 (CHR ''B'') @ '' ''
                        @ replicate 60 (CHR ''C'')))] \<rparr>]
   \<and> length (replicate 60 (CHR ''A'') @ '' '' @ replicate 60 (CHR ''B'') @ '' ''
               @ replicate 60 (CHR ''C'')) = 182
   \<and> clean_text (replicate 60 (CHR ''A'') @ [newline, newline] @ replicate 60 (CHR ''B'')
        @ [newline, newline] @ replicate 60 (CHR ''C''))
     = replicate 60 (CHR ''A'') @ '' '' @ replicate 60 (CHR ''B'') @ '' ''
        @ replicate 60 (CHR ''C'')
   \<and> split_into_chunks (processor_chunk_size default_settings (Some 150))
       (replicate 60 (CHR ''A'') @ [newline, newline] @ replicate 60 (CHR ''B'')
          @ [newline, newline] @ replicate 60 (CHR ''C''))
     = [replicate 60 (CHR ''A'') @ [newline, newline] @ replicate 60 (CHR ''B''),
        replicate 60 (CHR ''C'')]"
  using process_document_three_paragraphs cleaned_scenario scenario_chunks
  by simp

lemma map_of_chunk_metadata:
  "map_of (chunk_metadata base pid idx n t) ''paper_id'' = Some (MStr pid)"
  "map_of (chunk_metadata base pid idx n t) ''total_chunks'' = Some (MInt (int n))"
  "map_of (chunk_metadata base pid idx n t) ''chunk_index'' = Some (MInt (int idx))"
  by (simp_all add: chunk_metadata_def update_conv')

lemma process_document_example:
  "process_document example_env 500 ''a.txt'' ''p1'' None
   = Inr [\<lparr> dc_text = replicate 60 (CHR ''A''), chunk_index = 0,
            dc_metadata = [(''paper_id'', MStr ''p1''), (''chunk_index'', MInt 0),
                           (''total_chunks'', MInt 1),
                           (''chunk_text'', MStr (replicate 60 (CHR ''A'')))] \<rparr>]"
  by code_simp

lemma chunk_index_document_chunks:
  "map chunk_index (document_chunks base pid texts) = [0..<length texts]"
  by (simp add: document_chunks_def map_fst_enumerate comp_def case_prod_unfold)

lemma metadata_document_chunks:
  assumes "c \<in> set (document_chunks base pid texts)"
  shows "map_of (dc_metadata c) ''paper_id'' = Some (MStr pid)"
    and "map_of (dc_metadata c) ''total_chunks'' = Some (MInt (int (length texts)))"
    and "map_of (dc_metadata c) ''chunk_index'' = Some (MInt (int (chunk_index c)))"
  using assms by (auto simp: document_chunks_def map_of_chunk_metadata)

lemma process_document_is_document_chunks:
  assumes "process_document e chunk_size file_path pid md = Inr chunks"
  shows "\<exists>texts. chunks = document_chunks (or_dict md) pid texts"
proof (cases "chunks = []")
  case True
  then have "chunks = document_chunks (or_dict md) pid []"
    by (simp add: document_chunks_def)
  then show ?thesis by blast
next
  case False
  then show ?thesis
    using assms
    by (auto simp: process_document_def Let_def split: sum.splits if_splits)
qed

lemma chunk_index_enumerated:
  assumes "process_document e chunk_size file_path pid md = Inr chunks"
  shows "map chunk_index chunks = [0..<length chunks]"
  using process_document_is_document_chunks [OF assms] chunk_index_document_chunks by auto

lemma document_chunks_example:
  "document_chunks example_base_metadata ''p1'' [''first'', ''second'', ''third'']
   = [\<lparr> dc_text = ''first'', chunk_index = 0,
        dc_metadata = [(''paper_id'', MStr ''p1''), (''title'', MStr ''T''),
                       (''chunk_index'', MInt 0), (''total_chunks'', MInt 3),
                       (''chunk_text'', MStr ''first'')] \<rparr>,
      \<lparr> dc_text = ''second'', chunk_index = 1,
        dc_metadata = [(''paper_id'', MStr ''p1''), (''title'', MStr ''T''),
                       (''chunk_index'', MInt 1), (''total_chunks'', MInt 3),
                       (''chunk_text'', MStr ''second'')] \<rparr>,
      \<lparr> dc_text = ''third'', chunk_index = 2,
        dc_metadata = [(''paper_id'', MStr ''p1''), (''title'', MStr ''T''),
                       (''chunk_index'', MInt 2), (''total_chunks'', MInt 3),
                       (''chunk_text'', MStr ''third'')] \<rparr>]"
  by code_simp

text \<open>
  C6. For every list of \<open>n\<close> chunk texts, the chunk sequence that the loop of
  \<open>process_document\<close> builds has length \<open>n\<close>, its chunk indices are \<open>0, 1, ..., n - 1\<close> in
  this order, and the metadata of every chunk holds the document's paper id under
  \<open>paper_id\<close> (whatever the given metadata said), \<open>n\<close> under \<open>total_chunks\<close> and the chunk's
  own index under \<open>chunk_index\<close>; and whatever \<open>process_document\<close> returns is built by this
  loop with the document's paper id.
\<close>

theorem document_chunk_indices:
  "length (document_chunks base pid texts) = length texts
   \<and> map chunk_index (document_chunks base pid texts) = [0..<length texts]
   \<and> (\<forall>c\<in>set (document_chunks base pid texts).
          map_of (dc_metadata c) ''paper_id'' = Some (MStr pid)
        \<and> map_of (dc_metadata c) ''total_chunks'' = Some (MInt (int (length texts)))
        \<and> map_of (dc_metadata c) ''chunk_index'' = Some (MInt (int (chunk_index c))))
   \<and> (process_document e chunk_size file_path pid md = Inr chunks
        \<longrightarrow> (\<exists>texts'. chunks = document_chunks (or_dict md) pid texts'))"
  using chunk_index_document_chunks [of base pid texts]
    metadata_document_chunks [of _ base pid texts]
    process_document_is_document_chunks [of e chunk_size file_path pid md chunks]
  by simp

theorem document_chunk_indices_witness:
  "map chunk_index (document_chunks example_base_metadata ''p1'' [''first'', ''second'', ''third''])
     = [0, 1, 2]
   \<and> document_chunks example_base_metadata ''p1'' [''first'', ''second'', ''third''] ! 2
       \<in> set (document_chunks example_base_metadata ''p1'' [''first'', ''second'', ''third''])
   \<and> map_of (dc_metadata
        (document_chunks example_base_metadata ''p1'' [''first'', ''second'', ''third''] ! 2))
        ''paper_id'' = Some (MStr ''p1'')
   \<and> map_of (dc_metadata
        (document_chunks example_base_metadata ''p1'' [''first'', ''second'', ''third''] ! 2))
        ''total_chunks'' = Some (MInt 3)
   \<and> map_of (dc_metadata
        (document_chunks example_base_metadata ''p1'' [''first'', ''second'', ''third''] ! 2))
        ''chunk_index'' = Some (MInt 2)
   \<and> (\<exists>c0. process_document example_env 500 ''a.txt'' ''p1'' None = Inr [c0])
   \<and> (\<exists>texts'. Inr (document_chunks (or_dict None) ''p1'' texts')
         = process_document example_env 500 ''a.txt'' ''p1'' None)"
proof -
  let ?cs = "document_chunks example_base_metadata ''p1'' [''first'', ''second'', ''third'']"
  have mem: "?cs ! 2 \<in> set ?cs"
    by (rule nth_mem) simp
  have pd: "process_document example_env 500 ''a.txt'' ''p1'' None
              = Inr [\<lparr> dc_text = replicate 60 (CHR ''A''), chunk_index = 0,
                       dc_metadata = [(''paper_id'', MStr ''p1''), (''chunk_index'', MInt 0),
                           (''total_chunks'', MInt 1),
                           (''chunk_text'', MStr (replicate 60 (CHR ''A'')))] \<rparr>]"
    by (rule process_document_example)
  have law: "map chunk_index ?cs = [0..<length [''first'', ''second'', ''third'']]
     \<and> (\<forall>c\<in>set ?cs.
          map_of (dc_metadata c) ''paper_id'' = Some (MStr ''p1'')
        \<and> map_of (dc_metadata c) ''total_chunks''
            = Some (MInt (int (length [''first'', ''second'', ''third''])))
        \<and> map_of (dc_metadata c) ''chunk_index'' = Some (MInt (int (chunk_index c))))
     \<and> (\<exists>texts'. [\<lparr> dc_text = replicate 60 (CHR ''A''), chunk_index = 0,
                       dc_metadata = [(''paper_id'', MStr ''p1''), (''chunk_index'', MInt 0),
                           (''total_chunks'', MInt 1),
                           (''chunk_text'', MStr (replicate 60 (CHR ''A'')))] \<rparr>]
           = document_chunks (or_dict None) ''p1'' texts')"
    using document_chunk_indices [of example_base_metadata "''p1''"
            "[''first'', ''second'', ''third'']" example_env 500 "''a.txt''" None
            "[\<lparr> dc_text = replicate 60 (CHR ''A''), chunk_index = 0,
                       dc_metadata = [(''paper_id'', MStr ''p1''), (''chunk_index'', MInt 0),
                           (''total_chunks'', MInt 1),
                           (''chunk_text'', MStr (replicate 60 (CHR ''A'')))] \<rparr>]"] pd
    by blast
  have idx: "chunk_index (?cs ! 2) = 2"
    by (simp add: document_chunks_example)
  have upt3: "[0..<length [''first'', ''second'', ''third'']] = [0, 1, 2]"
    by code_simp
  show ?thesis
    using law mem idx upt3 pd by (auto simp del: length_document_chunks)
qed

section \<open>Properties of the vector store gateway\<close>

lemma except_return_Inr: "\<exists>v. fst (except_return d r) = Inr v"
  by (cases r) (auto simp: except_return_def split: sum.splits)

lemma health_check_value:
  "fst (health_check send c st) =
     Inr (case fst (send (GET (base_url c @ ''/api/v1/health'')) (snd st)) of
            Inl err \<Rightarrow> False | Inr r \<Rightarrow> status_code r = 200)"
  by (auto simp: health_check_def except_return_def http_def split: prod.splits sum.splits)

lemma delete_collection_value:
  "fst (delete_collection send c st) =
     Inr (case fst (send (DELETE (base_url c @ ''/api/v1/index/'' @ collection c)) (snd st)) of
            Inl err \<Rightarrow> False | Inr r \<Rightarrow> status_code r \<in> {200, 204, 404})"
  by (auto simp: delete_collection_def except_return_def http_def split: prod.splits sum.splits)

lemma endee_search_value:
  "fst (endee_search send c query_vector top_k filter_metadata st) =
     Inr (case fst (send (POST (base_url c @ ''/api/v1/search'') (collection c) query_vector top_k
                           (case filter_metadata of None \<Rightarrow> None
                            | Some f \<Rightarrow> if f = [] then None else Some f)) (snd st)) of
            Inl err \<Rightarrow> []
          | Inr r \<Rightarrow> (case parse_search_response r of Inl err \<Rightarrow> [] | Inr rs \<Rightarrow> rs))"
  by (auto simp: endee_search_def except_return_def http_def split: prod.splits sum.splits)

lemma parse_search_response_non_200:
  "status_code r \<noteq> 200 \<Longrightarrow> parse_search_response r = Inr []"
  by (simp add: parse_search_response_def)

lemma put_batches_failure:
  assumes "failed (fst (send (PUT url index0 b) (world_after send (map (PUT url index0) pre) (snd st))))"
  shows "fst (except_return False (put_batches send url index0 (pre @ b # post) st)) = Inr False"
  using assms
proof (induction pre arbitrary: st)
  case Nil
  then show ?case
    by (auto simp: except_return_def http_def failed_def split: prod.splits sum.splits)
next
  case (Cons p pre)
  show ?case
  proof (cases "send (PUT url index0 p) (snd st)")
    case (Pair r w')
    have step: "failed (fst (send (PUT url index0 b)
                  (world_after send (map (PUT url index0) pre) (snd (fst st @ [PUT url index0 p], w')))))"
      using Cons.prems Pair by simp
    show ?thesis
    proof (cases r)
      case (Inl err)
      with Pair show ?thesis by (simp add: except_return_def http_def)
    next
      case (Inr resp)
      show ?thesis
      proof (cases "status_code resp \<notin> {200, 201}")
        case True
        with Pair Inr show ?thesis by (simp add: except_return_def http_def)
      next
        case False
        with Pair Inr Cons.IH [OF step] show ?thesis by (simp add: http_def)
      qed
    qed
  qed
qed

lemma insert_vectors_any_batch_fails:
  assumes "0 < batch_size"
    and "batches (nat batch_size) documents = pre @ b # post"
    and "failed (fst (send (PUT (base_url c @ ''/api/v1/points'') (collection c) b)
                   (world_after send
                      (map (PUT (base_url c @ ''/api/v1/points'') (collection c)) pre) (snd st))))"
  shows "fst (insert_vectors send c documents batch_size st) = Inr False"
  using assms(1,3)
    put_batches_failure [of send "base_url c @ ''/api/v1/points''" "collection c" b pre st post]
  by (simp add: insert_vectors_def assms(2))

text \<open>Conversely, an insertion all of whose batches are accepted returns True.\<close>

lemma put_batches_all_accepted:
  assumes "\<And>pre b post. bs = pre @ b # post \<Longrightarrow>
             \<exists>r. fst (send (PUT url index0 b) (world_after send (map (PUT url index0) pre) (snd st)))
                   = Inr r \<and> status_code r \<in> {200, 201}"
  shows "fst (put_batches send url index0 bs st) = Inr True"
  using assms
proof (induction bs arbitrary: st)
  case Nil
  then show ?case by simp
next
  case (Cons b bs)
  obtain r where r: "fst (send (PUT url index0 b) (snd st)) = Inr r" "status_code r \<in> {200, 201}"
    using Cons.prems [of "[]" b bs] by auto
  obtain w' where w': "send (PUT url index0 b) (snd st) = (Inr r, w')"
    using r(1) by (cases "send (PUT url index0 b) (snd st)") auto
  have rest: "\<exists>r'. fst (send (PUT url index0 b')
                         (world_after send (map (PUT url index0) pre)
                            (snd (fst st @ [PUT url index0 b], w'))))
                  = Inr r' \<and> status_code r' \<in> {200, 201}"
    if "bs = pre @ b' # post" for pre b' post
    using Cons.prems [of "b # pre" b' post] that w' by simp
  have "fst (put_batches send url index0 bs (fst st @ [PUT url index0 b], w')) = Inr True"
    by (rule Cons.IH) (rule rest)
  then show ?case
    using r(2) w' by (simp add: http_def)
qed

lemma insert_vectors_all_accepted:
  assumes "0 < batch_size"
    and "\<And>pre b post. batches (nat batch_size) documents = pre @ b # post \<Longrightarrow>
           \<exists>r. fst (send (PUT (base_url c @ ''/api/v1/points'') (collection c) b)
                      (world_after send
                         (map (PUT (base_url c @ ''/api/v1/points'') (collection c)) pre) (snd st)))
                 = Inr r \<and> status_code r \<in> {200, 201}"
  shows "fst (insert_vectors send c documents batch_size st) = Inr True"
proof -
  have "fst (put_batches send (base_url c @ ''/api/v1/points'') (collection c)
               (batches (nat batch_size) documents) st) = Inr True"
    by (rule put_batches_all_accepted) (rule assms(2))
  then show ?thesis
    using assms(1) by (simp add: insert_vectors_def except_return_def)
qed

text \<open>
  C4. For every transport, every client and every argument, \<open>health_check\<close>,
  \<open>delete_collection\<close>, \<open>insert_vectors\<close> and \<open>search\<close> of the gateway return a value
  and never an exception. When the request fails (a transport error or a status that is
  not 2xx), the health check returns False, the deletion returns whether the status was
  404, and the search returns the empty list; an insertion returns False as soon as the
  request of any one of its batches fails, whichever batch it is.
\<close>

theorem gateway_never_raises:
  "(\<exists>ok. fst (health_check send c st) = Inr ok)
   \<and> (\<exists>ok. fst (delete_collection send c st) = Inr ok)
   \<and> (\<exists>ok. fst (insert_vectors send c documents batch_size st) = Inr ok)
   \<and> (\<exists>results. fst (endee_search send c query_vector top_k filter_metadata st) = Inr results)
   \<and> (failed (fst (send (GET (base_url c @ ''/api/v1/health'')) (snd st)))
        \<longrightarrow> fst (health_check send c st) = Inr False)
   \<and> (failed (fst (send (DELETE (base_url c @ ''/api/v1/index/'' @ collection c)) (snd st)))
        \<longrightarrow> fst (delete_collection send c st)
            = Inr (case fst (send (DELETE (base_url c @ ''/api/v1/index/'' @ collection c))
                               (snd st)) of
                     Inl err \<Rightarrow> False | Inr r \<Rightarrow> status_code r = 404))
   \<and> (0 < batch_size \<and> batches (nat batch_size) documents = pre @ b # post \<and>
        failed (fst (send (PUT (base_url c @ ''/api/v1/points'') (collection c) b)
                      (world_after send
                         (map (PUT (base_url c @ ''/api/v1/points'') (collection c)) pre)
                         (snd st))))
        \<longrightarrow> fst (insert_vectors send c documents batch_size st) = Inr False)
   \<and> (failed (fst (send (POST (base_url c @ ''/api/v1/search'') (collection c) query_vector top_k
                           (case filter_metadata of None \<Rightarrow> None
                            | Some f \<Rightarrow> if f = [] then None else Some f)) (snd st)))
        \<longrightarrow> fst (endee_search send c query_vector top_k filter_metadata st) = Inr [])"
proof (intro conjI impI)
  show "\<exists>ok. fst (health_check send c st) = Inr ok"
    unfolding health_check_def by (rule except_return_Inr)
  show "\<exists>ok. fst (delete_collection send c st) = Inr ok"
    unfolding delete_collection_def by (rule except_return_Inr)
  show "\<exists>ok. fst (insert_vectors send c documents batch_size st) = Inr ok"
    unfolding insert_vectors_def by (rule except_return_Inr)
  show "\<exists>results. fst (endee_search send c query_vector top_k filter_metadata st) = Inr results"
    unfolding endee_search_def by (rule except_return_Inr)
next
  assume "failed (fst (send (GET (base_url c @ ''/api/v1/health'')) (snd st)))"
  then show "fst (health_check send c st) = Inr False"
    by (auto simp: health_check_value failed_def split: sum.splits)
next
  assume "failed (fst (send (DELETE (base_url c @ ''/api/v1/index/'' @ collection c)) (snd st)))"
  then show "fst (delete_collection send c st)
      = Inr (case fst (send (DELETE (base_url c @ ''/api/v1/index/'' @ collection c)) (snd st)) of
               Inl err \<Rightarrow> False | Inr r \<Rightarrow> status_code r = 404)"
    by (auto simp: delete_collection_value failed_def split: sum.splits)
next
  assume "0 < batch_size \<and> batches (nat batch_size) documents = pre @ b # post \<and>
        failed (fst (send (PUT (base_url c @ ''/api/v1/points'') (collection c) b)
                      (world_after send
                         (map (PUT (base_url c @ ''/api/v1/points'') (collection c)) pre)
                         (snd st))))"
  then show "fst (insert_vectors send c documents batch_size st) = Inr False"
    using insert_vectors_any_batch_fails by blast
next
  assume "failed (fst (send (POST (base_url c @ ''/api/v1/search'') (collection c) query_vector top_k
                           (case filter_metadata of None \<Rightarrow> None
                            | Some f \<Rightarrow> if f = [] then None else Some f)) (snd st)))"
  then show "fst (endee_search send c query_vector top_k filter_metadata st) = Inr []"
    by (auto simp: endee_search_value failed_def parse_search_response_non_200 split: sum.splits)
qed

lemma batches_example:
  "batches (nat 1)
     [\<lparr> vd_id = ''p1_chunk_0'', vector = [1, 0], vd_metadata = [] \<rparr>,
      \<lparr> vd_id = ''p1_chunk_1'', vector = [0, 1], vd_metadata = [] \<rparr>]
   = [[\<lparr> vd_id = ''p1_chunk_0'', vector = [1, 0], vd_metadata = [] \<rparr>]]
       @ [\<lparr> vd_id = ''p1_chunk_1'', vector = [0, 1], vd_metadata = [] \<rparr>] # []"
  by (simp add: batches.simps)

theorem gateway_never_raises_witness:
  "fst (health_check failing_send example_client ([], 0)) = Inr False
   \<and> fst (delete_collection failing_send example_client ([], 0)) = Inr True
   \<and> fst (failing_send (PUT (base_url example_client @ ''/api/v1/points'')
              (collection example_client)
              [\<lparr> vd_id = ''p1_chunk_0'', vector = [1, 0], vd_metadata = [] \<rparr>]) 0)
       = Inr \<lparr> status_code = 201, resp_text = ''error'', json = None \<rparr>
   \<and> fst (insert_vectors failing_send example_client
            [\<lparr> vd_id = ''p1_chunk_0'', vector = [1, 0], vd_metadata = [] \<rparr>,
             \<lparr> vd_id = ''p1_chunk_1'', vector = [0, 1], vd_metadata = [] \<rparr>] 1 ([], 0))
       = Inr False
   \<and> fst (endee_search failing_send example_client [1, 0] 5 None ([], 0)) = Inr []"
  using gateway_never_raises [of failing_send example_client "([], 0)"
          "[\<lparr> vd_id = ''p1_chunk_0'', vector = [1, 0], vd_metadata = [] \<rparr>,
            \<lparr> vd_id = ''p1_chunk_1'', vector = [0, 1], vd_metadata = [] \<rparr>]" 1 "[1, 0]" 5 None
          "[[\<lparr> vd_id = ''p1_chunk_0'', vector = [1, 0], vd_metadata = [] \<rparr>]]"
          "[\<lparr> vd_id = ''p1_chunk_1'', vector = [0, 1], vd_metadata = [] \<rparr>]" "[]"]
        batches_example
  by (simp add: failed_def failing_send_def)

section \<open>Properties of the ingestion pipeline\<close>

lemma extract_text_empty_cases:
  "\<not> path_exists e fp \<Longrightarrow> extract_text e fp = Inr []"
  "path_suffix_lower e fp \<noteq> ''.pdf'' \<Longrightarrow> read_text e fp = Inr [] \<Longrightarrow> extract_text e fp = Inr []"
  "path_suffix_lower e fp \<noteq> ''.pdf'' \<Longrightarrow> read_text e fp = Inl err \<Longrightarrow> extract_text e fp = Inr []"
  by (auto simp: extract_text_def extract_text_from_txt_def)

lemma process_document_no_text:
  "extract_text e fp = Inr [] \<Longrightarrow> process_document e chunk_size fp pid md = Inr []"
  by (simp add: process_document_def)

text \<open>
  C5. When document processing yields no chunk for the file (in particular when no text
  could be extracted from it: a missing, unreadable or empty file), \<open>ingest_single_paper\<close>
  returns False and leaves the connection as it was: no request, hence no write, is sent
  to the vector store.
\<close>

theorem ingest_zero_chunks_fails:
  assumes "process_document e chunk_size file_path (effective_paper_id e paper_id0)
             (Some (ingest_metadata e file_path md)) = Inr []
           \<or> extract_text e file_path = Inr []"
  shows "ingest_single_paper e send c chunk_size file_path paper_id0 md st = (Inr False, st)"
proof -
  have "process_document e chunk_size file_path (effective_paper_id e paper_id0)
             (Some (ingest_metadata e file_path md)) = Inr []"
    using assms process_document_no_text by blast
  then show ?thesis
    by (simp add: ingest_single_paper_def Let_def except_return_def)
qed

theorem ingest_zero_chunks_fails_witness:
  "extract_text example_env ''empty.txt'' = Inr []
   \<and> ingest_single_paper example_env (store_send []) example_client 500 ''empty.txt'' None None ([], 0)
     = (Inr False, ([], 0))"
proof -
  have h: "extract_text example_env ''empty.txt'' = Inr []"
    by (simp add: extract_text_def extract_text_from_txt_def example_env_def)
  show ?thesis
    using h ingest_zero_chunks_fails [of example_env 500 "''empty.txt''" None None
                 "store_send []" example_client "([], 0)"]
    by simp
qed

lemma concat_batches: "0 < n \<Longrightarrow> concat (batches n xs) = xs"
proof (induction n xs rule: batches.induct)
  case (1 n xs)
  show ?case
  proof (cases "xs = []")
    case True
    then show ?thesis by (simp add: batches.simps [of n "[]"])
  next
    case False
    with 1 show ?thesis by (simp add: batches.simps [of n xs])
  qed
qed

lemma put_batches_success_log:
  "put_batches send url index0 bs st = (Inr True, st')
     \<Longrightarrow> fst st' = fst st @ map (PUT url index0) bs"
proof (induction bs arbitrary: st)
  case Nil
  then show ?case by simp
next
  case (Cons b bs)
  then show ?case
    by (auto simp: http_def split: prod.splits sum.splits if_splits)
qed

lemma insert_vectors_success_log:
  assumes "insert_vectors send c documents 100 st = (Inr True, st')"
  shows "fst st' = fst st @ map (PUT (base_url c @ ''/api/v1/points'') (collection c))
                             (batches 100 documents)"
proof -
  have "put_batches send (base_url c @ ''/api/v1/points'') (collection c) (batches 100 documents) st
          = (Inr True, st')"
    using assms
    by (auto simp: insert_vectors_def except_return_def split: sum.splits prod.splits)
  then show ?thesis by (rule put_batches_success_log)
qed

lemma length_build_vectors:
  "length embeddings = length chunks \<Longrightarrow> length (build_vectors pid chunks embeddings) = length chunks"
  by (simp add: build_vectors_def)

lemma nth_build_vectors:
  "i < length chunks \<Longrightarrow> length embeddings = length chunks \<Longrightarrow>
     vd_id (build_vectors pid chunks embeddings ! i) = pid @ ''_chunk_'' @ str_nat (chunk_index (chunks ! i))
   \<and> vector (build_vectors pid chunks embeddings ! i) = embeddings ! i
   \<and> vd_metadata (build_vectors pid chunks embeddings ! i) = dc_metadata (chunks ! i)"
  by (simp add: build_vectors_def vector_id_def)

lemma ingest_sends_built_records:
  assumes ok: "ingest_single_paper e send c chunk_size file_path paper_id0 md st = (Inr True, st')"
    and same_length: "\<forall>texts embs. encode_batch e texts = Inr embs \<longrightarrow> length embs = length texts"
  shows "\<exists>chunks embeddings.
           process_document e chunk_size file_path (effective_paper_id e paper_id0)
             (Some (ingest_metadata e file_path md)) = Inr chunks
         \<and> chunks \<noteq> []
         \<and> embed_batch e (map dc_text chunks) = Inr embeddings
         \<and> length embeddings = length chunks
         \<and> (\<forall>i < length chunks. chunk_index (chunks ! i) = i)
         \<and> fst st' = fst st @ map (PUT (base_url c @ ''/api/v1/points'') (collection c))
                (batches 100 (build_vectors (effective_paper_id e paper_id0) chunks embeddings))
         \<and> concat (batches 100 (build_vectors (effective_paper_id e paper_id0) chunks embeddings))
             = build_vectors (effective_paper_id e paper_id0) chunks embeddings"
proof -
  let ?pid = "effective_paper_id e paper_id0"
  obtain chunks where pd: "process_document e chunk_size file_path ?pid
             (Some (ingest_metadata e file_path md)) = Inr chunks"
    using ok
    by (cases "process_document e chunk_size file_path ?pid (Some (ingest_metadata e file_path md))")
       (auto simp: ingest_single_paper_def Let_def except_return_def)
  have ne: "chunks \<noteq> []"
    using ok pd by (auto simp: ingest_single_paper_def Let_def except_return_def)
  obtain embeddings where eb: "embed_batch e (map dc_text chunks) = Inr embeddings"
    using ok pd ne
    by (cases "embed_batch e (map dc_text chunks)")
       (auto simp: ingest_single_paper_def Let_def except_return_def)
  have ins: "insert_vectors send c (build_vectors ?pid chunks embeddings) 100 st = (Inr True, st')"
  proof -
    have "\<exists>v. fst (insert_vectors send c (build_vectors ?pid chunks embeddings) 100 st) = Inr v"
      unfolding insert_vectors_def by (rule except_return_Inr)
    then show ?thesis
      using ok pd ne eb
      by (cases "insert_vectors send c (build_vectors ?pid chunks embeddings) 100 st")
         (auto simp: ingest_single_paper_def Let_def except_return_def)
  qed
  have len: "length embeddings = length chunks"
    using eb ne same_length by (simp add: embed_batch_def)
  have idx: "map chunk_index chunks = [0..<length chunks]"
    by (rule chunk_index_enumerated [OF pd])
  have idx_i: "chunk_index (chunks ! i) = i" if "i < length chunks" for i
  proof -
    have "map chunk_index chunks ! i = [0..<length chunks] ! i" by (simp only: idx)
    then show ?thesis using that by simp
  qed
  have log: "fst st' = fst st @ map (PUT (base_url c @ ''/api/v1/points'') (collection c))
                (batches 100 (build_vectors ?pid chunks embeddings))"
    by (rule insert_vectors_success_log [OF ins])
  have cc: "concat (batches 100 (build_vectors ?pid chunks embeddings))
              = build_vectors ?pid chunks embeddings"
    by (rule concat_batches) simp
  show ?thesis
    using pd ne eb len idx_i log cc by blast
qed

text \<open>\<open>str\<close> writes the decimal digits of the index: reading them back gives the index.\<close>

lemma decimal_value_snoc:
  "decimal_value (s @ [c]) = 10 * decimal_value s + (of_char c - 48)"
  by (simp add: decimal_value_def)

lemma decimal_value_digit: "d < 10 \<Longrightarrow> decimal_value [digit_char d] = d"
  by (simp add: decimal_value_def digit_char_def)

lemma decimal_value_str_nat: "decimal_value (str_nat n) = n"
proof (induction n rule: str_nat.induct)
  case (1 n)
  show ?case
  proof (cases "n < 10")
    case True
    then show ?thesis by (simp add: str_nat.simps [of n] decimal_value_digit)
  next
    case False
    have "n mod 10 < 10" by simp
    then have d: "of_char (digit_char (n mod 10)) - 48 = n mod 10"
      by (simp add: digit_char_def)
    have "decimal_value (str_nat n) = 10 * decimal_value (str_nat (n div 10)) + n mod 10"
      using False d by (simp add: str_nat.simps [of n] decimal_value_snoc)
    with 1 False show ?thesis by simp
  qed
qed

lemma str_nat_example: "str_nat 12 = ''12''"
  by code_simp

text \<open>
  C7. For every paper id \<open>P\<close>, every list of chunks and every list of embeddings of the
  same length, \<open>ingest_single_paper\<close>'s loop builds exactly one record per chunk: record
  \<open>i\<close> has the id \<open>P_chunk_k\<close> with \<open>k\<close> the decimal chunk index of chunk \<open>i\<close>, the \<open>i\<close>-th
  embedding as its vector and the metadata of chunk \<open>i\<close>. When an ingestion succeeds, and
  the embedding model returns as many vectors as it was given texts, the chunks are those
  of the document, chunk \<open>i\<close> has index \<open>i\<close>, the embeddings are the batch embedding of
  the chunk texts in chunk order, and the records built from them, in this order, are
  exactly what was sent to the store.
\<close>

theorem build_vectors_one_record_per_chunk:
  "(length embeddings = length chunks \<longrightarrow>
       length (build_vectors P chunks embeddings) = length chunks
     \<and> (\<forall>i < length chunks.
           vd_id (build_vectors P chunks embeddings ! i)
             = P @ ''_chunk_'' @ str_nat (chunk_index (chunks ! i))
         \<and> vector (build_vectors P chunks embeddings ! i) = embeddings ! i
         \<and> vd_metadata (build_vectors P chunks embeddings ! i) = dc_metadata (chunks ! i)))
   \<and> decimal_value (str_nat n) = n
   \<and> (ingest_single_paper e send c chunk_size file_path paper_id0 md st = (Inr True, st')
        \<and> (\<forall>texts embs. encode_batch e texts = Inr embs \<longrightarrow> length embs = length texts)
      \<longrightarrow> (\<exists>chunks' embeddings'.
             process_document e chunk_size file_path (effective_paper_id e paper_id0)
               (Some (ingest_metadata e file_path md)) = Inr chunks'
           \<and> chunks' \<noteq> []
           \<and> embed_batch e (map dc_text chunks') = Inr embeddings'
           \<and> length embeddings' = length chunks'
           \<and> (\<forall>i < length chunks'. chunk_index (chunks' ! i) = i)
           \<and> fst st' = fst st @ map (PUT (base_url c @ ''/api/v1/points'') (collection c))
                  (batches 100
                     (build_vectors (effective_paper_id e paper_id0) chunks' embeddings'))
           \<and> concat (batches 100
                        (build_vectors (effective_paper_id e paper_id0) chunks' embeddings'))
               = build_vectors (effective_paper_id e paper_id0) chunks' embeddings'))"
proof (intro conjI impI allI)
  assume len: "length embeddings = length chunks"
  show "length (build_vectors P chunks embeddings) = length chunks"
    by (rule length_build_vectors [OF len])
  fix i assume i: "i < length chunks"
  show "vd_id (build_vectors P chunks embeddings ! i)
          = P @ ''_chunk_'' @ str_nat (chunk_index (chunks ! i))"
    using nth_build_vectors [OF i len, of P] by simp
  show "vector (build_vectors P chunks embeddings ! i) = embeddings ! i"
    using nth_build_vectors [OF i len, of P] by simp
  show "vd_metadata (build_vectors P chunks embeddings ! i) = dc_metadata (chunks ! i)"
    using nth_build_vectors [OF i len, of P] by simp
next
  show "decimal_value (str_nat n) = n"
    by (rule decimal_value_str_nat)
next
  assume "ingest_single_paper e send c chunk_size file_path paper_id0 md st = (Inr True, st')
        \<and> (\<forall>texts embs. encode_batch e texts = Inr embs \<longrightarrow> length embs = length texts)"
  then show "\<exists>chunks' embeddings'.
             process_document e chunk_size file_path (effective_paper_id e paper_id0)
               (Some (ingest_metadata e file_path md)) = Inr chunks'
           \<and> chunks' \<noteq> []
           \<and> embed_batch e (map dc_text chunks') = Inr embeddings'
           \<and> length embeddings' = length chunks'
           \<and> (\<forall>i < length chunks'. chunk_index (chunks' ! i) = i)
           \<and> fst st' = fst st @ map (PUT (base_url c @ ''/api/v1/points'') (collection c))
                  (batches 100
                     (build_vectors (effective_paper_id e paper_id0) chunks' embeddings'))
           \<and> concat (batches 100
                        (build_vectors (effective_paper_id e paper_id0) chunks' embeddings'))
               = build_vectors (effective_paper_id e paper_id0) chunks' embeddings'"
    using ingest_sends_built_records [of e send c chunk_size file_path paper_id0 md st st']
    by blast
qed

lemma ingest_example:
  "ingest_single_paper example_env (store_send []) example_client 500 ''a.txt'' (Some ''p1'') None
     ([], 0)
   = (Inr True,
      ([PUT ''http://localhost:3000/api/v1/points'' ''research_papers''
          [\<lparr> vd_id = ''p1_chunk_0'', vector = [1, 0],
             vd_metadata =
               [(''file_path'', MStr ''a.txt''), (''file_name'', MStr ''a.txt''),
                (''paper_id'', MStr ''p1''), (''chunk_index'', MInt 0),
                (''total_chunks'', MInt 1),
                (''chunk_text'', MStr (replicate 60 (CHR ''A'')))] \<rparr>]], 1))"
  by code_simp

theorem build_vectors_one_record_per_chunk_witness:
  "length example_embeddings = length example_chunks
   \<and> length (build_vectors ''p1'' example_chunks example_embeddings) = 3
   \<and> vd_id (build_vectors ''p1'' example_chunks example_embeddings ! 1) = ''p1_chunk_1''
   \<and> vector (build_vectors ''p1'' example_chunks example_embeddings ! 1) = [0, 1]
   \<and> vd_id (build_vectors ''p1'' example_chunks example_embeddings ! 2) = ''p1_chunk_12''
   \<and> vector (build_vectors ''p1'' example_chunks example_embeddings ! 2) = [1, 1]
   \<and> decimal_value (str_nat 12) = 12
   \<and> fst (ingest_single_paper example_env (store_send []) example_client 500 ''a.txt''
            (Some ''p1'') None ([], 0)) = Inr True
   \<and> (\<exists>chunks' embeddings'.
         process_document example_env 500 ''a.txt'' (effective_paper_id example_env (Some ''p1''))
           (Some (ingest_metadata example_env ''a.txt'' None)) = Inr chunks'
       \<and> embed_batch example_env (map dc_text chunks') = Inr embeddings'
       \<and> length embeddings' = length chunks')"
proof -
  let ?bv = "build_vectors ''p1'' example_chunks example_embeddings"
  have len: "length example_embeddings = length example_chunks"
    by (simp add: example_embeddings_def example_chunks_def)
  have same_length: "\<forall>texts embs. encode_batch example_env texts = Inr embs
                       \<longrightarrow> length embs = length texts"
    by (auto simp: example_env_def)
  note law = build_vectors_one_record_per_chunk
      [where embeddings = example_embeddings and chunks = example_chunks and P = "''p1''"
         and n = 12 and e = example_env and send = "store_send []" and c = example_client
         and chunk_size = 500 and file_path = "''a.txt''" and ?paper_id0.0 = "Some ''p1''"
         and md = None and st = "([], 0)"]
  have recs: "length ?bv = length example_chunks
     \<and> (\<forall>i < length example_chunks.
           vd_id (?bv ! i) = ''p1'' @ ''_chunk_'' @ str_nat (chunk_index (example_chunks ! i))
         \<and> vector (?bv ! i) = example_embeddings ! i)"
    using law len by blast
  have s1: "str_nat (Suc 0) = ''1''" by code_simp
  have r1: "vd_id (?bv ! 1) = ''p1_chunk_1'' \<and> vector (?bv ! 1) = [0, 1]"
    using recs by (simp add: example_chunks_def example_embeddings_def s1)
  have r2: "vd_id (?bv ! 2) = ''p1_chunk_12'' \<and> vector (?bv ! 2) = [1, 1]"
    using recs by (simp add: example_chunks_def example_embeddings_def str_nat_example)
  have l3: "length ?bv = 3"
    using recs by (simp add: example_chunks_def)
  have dv: "decimal_value (str_nat 12) = 12"
    using law by blast
  have ing: "\<exists>chunks' embeddings'.
         process_document example_env 500 ''a.txt'' (effective_paper_id example_env (Some ''p1''))
           (Some (ingest_metadata example_env ''a.txt'' None)) = Inr chunks'
       \<and> embed_batch example_env (map dc_text chunks') = Inr embeddings'
       \<and> length embeddings' = length chunks'"
    using law ingest_example same_length by blast
  have ok: "fst (ingest_single_paper example_env (store_send []) example_client 500 ''a.txt''
            (Some ''p1'') None ([], 0)) = Inr True"
    by (simp add: ingest_example)
  show ?thesis
    using len l3 r1 r2 dv ing ok by blast
qed

section \<open>Properties of the retrieval engine\<close>

lemma threshold_loop_eq:
  "threshold_loop t rs ms
     = ms @ map (\<lambda>r. the (convert_to_search_match r)) (filter (\<lambda>r. t \<le> score r) rs)"
  by (induction rs arbitrary: ms) (simp_all add: convert_to_search_match_def)

lemma threshold_loop_scores:
  "m \<in> set (threshold_loop t rs []) \<Longrightarrow> t \<le> similarity_score m"
  by (auto simp: threshold_loop_eq convert_to_search_match_def)

lemma threshold_loop_mono:
  "t \<le> t' \<Longrightarrow> set (threshold_loop t' rs []) \<subseteq> set (threshold_loop t rs [])"
  by (auto simp: threshold_loop_eq)

lemma search_results:
  "fst (search cfg e send eng query top_k filter_metadata min_similarity st) = Inr matches \<Longrightarrow>
     matches = [] \<or>
     (\<exists>raw. matches = threshold_loop (or_float min_similarity (SIMILARITY_THRESHOLD cfg)) raw [])"
  by (auto simp: search_def Let_def except_return_def split: sum.splits prod.splits)

lemma search_depends_on_effective_arguments:
  "or_int top_k (top_k_default eng) = or_int top_k' (top_k_default eng) \<Longrightarrow>
   or_float min_similarity (SIMILARITY_THRESHOLD cfg) = or_float min_similarity' (SIMILARITY_THRESHOLD cfg) \<Longrightarrow>
   search cfg e send eng query top_k filter_metadata min_similarity st
     = search cfg e send eng query top_k' filter_metadata min_similarity' st"
  by (simp add: search_def Let_def)

text \<open>
  C10. A \<open>min_similarity\<close> of 0.0 is treated like no argument: the search is the one made
  with the configured threshold, which is 0.5 by default, so that every returned match
  has a score of at least 0.5. Likewise a \<open>top_k\<close> of 0 is treated like no argument:
  the search is the one made with the engine's own \<open>top_k\<close>.
\<close>

theorem search_falsy_arguments_use_defaults:
  "search cfg e send eng query top_k filter_metadata (Some 0) st
     = search cfg e send eng query top_k filter_metadata None st
   \<and> search default_settings e send eng query top_k filter_metadata (Some 0) st
     = search default_settings e send eng query top_k filter_metadata (Some 0.5) st
   \<and> (fst (search default_settings e send eng query top_k filter_metadata (Some 0) st) = Inr matches
        \<longrightarrow> (\<forall>m \<in> set matches. 0.5 \<le> similarity_score m))
   \<and> search cfg e send eng query (Some 0) filter_metadata min_similarity st
     = search cfg e send eng query None filter_metadata min_similarity st
   \<and> search cfg e send eng query (Some 0) filter_metadata min_similarity st
     = search cfg e send eng query (Some (top_k_default eng)) filter_metadata min_similarity st"
proof (intro conjI impI ballI)
  show "search cfg e send eng query top_k filter_metadata (Some 0) st
     = search cfg e send eng query top_k filter_metadata None st"
    by (rule search_depends_on_effective_arguments) (simp_all add: or_float_def)
  show "search default_settings e send eng query top_k filter_metadata (Some 0) st
     = search default_settings e send eng query top_k filter_metadata (Some 0.5) st"
    by (rule search_depends_on_effective_arguments)
       (simp_all add: or_float_def default_settings_def)
  show "search cfg e send eng query (Some 0) filter_metadata min_similarity st
     = search cfg e send eng query None filter_metadata min_similarity st"
    by (rule search_depends_on_effective_arguments) (simp_all add: or_int_def)
  show "search cfg e send eng query (Some 0) filter_metadata min_similarity st
     = search cfg e send eng query (Some (top_k_default eng)) filter_metadata min_similarity st"
    by (rule search_depends_on_effective_arguments) (simp_all add: or_int_def)
next
  fix m
  assume r: "fst (search default_settings e send eng query top_k filter_metadata (Some 0) st) = Inr matches"
    and m: "m \<in> set matches"
  have "or_float (Some 0) (SIMILARITY_THRESHOLD default_settings) = 0.5"
    by (simp add: or_float_def default_settings_def)
  with search_results [OF r] m show "0.5 \<le> similarity_score m"
    using threshold_loop_scores by fastforce
qed

lemma search_example_zero:
  "search default_settings example_env (store_send example_hits) example_engine ''q'' None None
     (Some 0) ([], 0)
   = (Inr [example_match ''pb'' 0.6],
      ([POST ''http://localhost:3000/api/v1/search'' ''research_papers'' [1, 0] 10 None], 1))"
  by (simp add: search_def Let_def except_return_def endee_search_def http_def store_send_def
        example_hits_def example_engine_def example_client_def SearchEngine_def EndeeClient_def
        default_settings_def or_int_def or_float_def or_str_def embed_text_def example_env_def
        parse_search_response_def parse_item_def convert_to_search_match_def dict_get_def
        example_match_def)

lemma search_example_third:
  "search default_settings example_env (store_send example_hits) example_engine ''q'' None None
     (Some 0.3) ([], 0)
   = (Inr [example_match ''pb'' 0.6, example_match ''pa'' 0.4],
      ([POST ''http://localhost:3000/api/v1/search'' ''research_papers'' [1, 0] 10 None], 1))"
  by (simp add: search_def Let_def except_return_def endee_search_def http_def store_send_def
        example_hits_def example_engine_def example_client_def SearchEngine_def EndeeClient_def
        default_settings_def or_int_def or_float_def or_str_def embed_text_def example_env_def
        parse_search_response_def parse_item_def convert_to_search_match_def dict_get_def
        example_match_def)

theorem search_falsy_arguments_use_defaults_witness:
  "fst (search default_settings example_env (store_send example_hits) example_engine ''q'' None None
          (Some 0) ([], 0)) = Inr [example_match ''pb'' 0.6]
   \<and> 0.5 \<le> similarity_score (example_match ''pb'' 0.6)"
proof -
  have h: "fst (search default_settings example_env (store_send example_hits) example_engine ''q''
                  None None (Some 0) ([], 0)) = Inr [example_match ''pb'' 0.6]"
    by (simp add: search_example_zero)
  show ?thesis
    using h search_falsy_arguments_use_defaults
            [of default_settings example_env "store_send example_hits" example_engine "''q''"
                None None "([], 0)" "[example_match ''pb'' 0.6]" None]
    by simp
qed

text \<open>
  C2. The threshold law fails at the threshold 0.0: against a store holding a hit of
  score 0.6 and a hit of score 0.4, the search with threshold 0.0 returns only the first
  (it applies 0.5), while the search with the larger threshold 0.3 returns both.
\<close>

theorem threshold_zero_excludes_what_a_larger_threshold_returns:
  "fst (search default_settings example_env (store_send example_hits) example_engine ''q'' None None
          (Some 0) ([], 0)) = Inr [example_match ''pb'' 0.6]
   \<and> fst (search default_settings example_env (store_send example_hits) example_engine ''q'' None None
          (Some 0.3) ([], 0)) = Inr [example_match ''pb'' 0.6, example_match ''pa'' 0.4]
   \<and> (0::real) \<le> 0.3
   \<and> \<not> set [example_match ''pb'' 0.6, example_match ''pa'' 0.4] \<subseteq> set [example_match ''pb'' 0.6]"
  by (simp add: search_example_zero search_example_third example_match_def)

text \<open>
  For thresholds other than zero the law holds, when the configured default is not
  negative: every match has a score of at least \<open>T\<close>, and a larger threshold returns a
  subset.
\<close>

lemma threshold_law_for_nonzero_thresholds:
  assumes "0 \<le> SIMILARITY_THRESHOLD cfg"
    and r: "fst (search cfg e send eng query top_k filter_metadata (Some T) st) = Inr matches"
    and r': "fst (search cfg e send eng query top_k filter_metadata (Some T') st) = Inr matches'"
    and "T \<le> T'"
  shows "\<forall>m \<in> set matches. T \<le> similarity_score m"
    and "T \<noteq> 0 \<Longrightarrow> set matches' \<subseteq> set matches"
proof -
  have eff: "T \<le> or_float (Some T) (SIMILARITY_THRESHOLD cfg)"
    using assms(1) by (simp add: or_float_def)
  show "\<forall>m \<in> set matches. T \<le> similarity_score m"
    using search_results [OF r] eff threshold_loop_scores by fastforce
  assume nz: "T \<noteq> 0"
  have le: "or_float (Some T) (SIMILARITY_THRESHOLD cfg) \<le> or_float (Some T') (SIMILARITY_THRESHOLD cfg)"
    using assms(1,4) nz by (simp add: or_float_def)
  show "set matches' \<subseteq> set matches"
    using r r' threshold_loop_mono [OF le]
    by (auto simp: search_def Let_def except_return_def split: sum.splits prod.splits)
qed

text \<open>
  C1. \<open>find_related_papers\<close> calls \<open>get_vector\<close> on the client, and \<open>EndeeClient\<close> has
  no such method: for every seed paper, every \<open>top_k\<close> and every store the call raises
  inside the \<open>try\<close>, and the result is the empty list, with no request sent.
\<close>

theorem find_related_papers_always_empty:
  "find_related_papers send eng seed top_k st = (Inr [], st)"
  by (simp add: find_related_papers_def find_related_papers_with_def EndeeClient_get_vector_def
        except_return_def)

text \<open>
  The loop itself, were the record fetched: for a positive \<open>top_k\<close> it returns at most
  \<open>top_k\<close> matches; when every hit carries a \<open>paper_id\<close>, as every record written by the
  pipeline does, no match is of the seed paper and no paper occurs twice.
\<close>

lemma related_loop_length:
  "int (length ms) < k \<Longrightarrow> int (length (related_loop P k rs ms seen)) \<le> k"
proof (induction rs arbitrary: ms seen)
  case Nil
  then show ?case by simp
next
  case (Cons r rs)
  then show ?case
    by (auto simp: Let_def convert_to_search_match_def)
qed

lemma related_loop_excludes_seed:
  assumes "\<forall>r\<in>set rs. map_of (sr_metadata r) ''paper_id'' \<noteq> None"
    and "\<forall>m\<in>set ms. paper_id m \<noteq> MStr P"
  shows "\<forall>m\<in>set (related_loop P k rs ms seen). paper_id m \<noteq> MStr P"
  using assms
proof (induction rs arbitrary: ms seen)
  case Nil
  then show ?case by simp
next
  case (Cons r rs)
  obtain v where v: "map_of (sr_metadata r) ''paper_id'' = Some v"
    using Cons.prems(1) by auto
  show ?case
  proof (cases "v = MStr P \<or> Some v \<in> seen")
    case True
    then show ?thesis using Cons v by (auto simp: Let_def)
  next
    case False
    let ?m = "the (convert_to_search_match r)"
    have pm: "paper_id ?m = v"
      by (simp add: convert_to_search_match_def dict_get_def v)
    have a: "\<forall>m\<in>set (ms @ [?m]). paper_id m \<noteq> MStr P"
      using Cons.prems(2) pm False by auto
    have rest: "\<forall>r\<in>set rs. map_of (sr_metadata r) ''paper_id'' \<noteq> None"
      using Cons.prems(1) by simp
    have "\<forall>m\<in>set (related_loop P k rs (ms @ [?m]) (insert (Some v) seen)). paper_id m \<noteq> MStr P"
      by (rule Cons.IH [OF rest a])
    then show ?thesis
      using False v a by (simp add: Let_def convert_to_search_match_def del: set_append)
  qed
qed

lemma related_loop_distinct:
  assumes "\<forall>r\<in>set rs. map_of (sr_metadata r) ''paper_id'' \<noteq> None"
    and "distinct (map paper_id ms)"
    and "\<forall>m\<in>set ms. Some (paper_id m) \<in> seen"
  shows "distinct (map paper_id (related_loop P k rs ms seen))"
  using assms
proof (induction rs arbitrary: ms seen)
  case Nil
  then show ?case by simp
next
  case (Cons r rs)
  obtain v where v: "map_of (sr_metadata r) ''paper_id'' = Some v"
    using Cons.prems(1) by auto
  show ?case
  proof (cases "v = MStr P \<or> Some v \<in> seen")
    case True
    then show ?thesis using Cons v by (auto simp: Let_def)
  next
    case False
    let ?m = "the (convert_to_search_match r)"
    have pm: "paper_id ?m = v"
      by (simp add: convert_to_search_match_def dict_get_def v)
    have d: "distinct (map paper_id (ms @ [?m]))"
      using Cons.prems(2,3) pm False by auto
    have s: "\<forall>m\<in>set (ms @ [?m]). Some (paper_id m) \<in> insert (Some v) seen"
      using Cons.prems(3) pm by auto
    have rest: "\<forall>r\<in>set rs. map_of (sr_metadata r) ''paper_id'' \<noteq> None"
      using Cons.prems(1) by simp
    have "distinct (map paper_id (related_loop P k rs (ms @ [?m]) (insert (Some v) seen)))"
      by (rule Cons.IH [OF rest d s])
    then show ?thesis
      using False v d by (simp add: Let_def convert_to_search_match_def)
  qed
qed

text \<open>
  Outside these conditions the loop returns one match for \<open>top_k = 0\<close>, and a hit
  without \<open>paper_id\<close> becomes a match of the paper \<open>unknown\<close>, also for the seed
  \<open>unknown\<close>.
\<close>

lemma related_loop_top_k_zero:
  "related_loop ''pa'' 0
     [\<lparr> sr_id = ''pb_chunk_0'', score = 0.6, sr_metadata = [(''paper_id'', MStr ''pb'')] \<rparr>] [] {}
   = [\<lparr> paper_id = MStr ''pb'', paper_title = MStr ''Untitled'', chunk_text = MStr [],
        sm_chunk_index = MInt 0, similarity_score = 0.6,
        sm_metadata = [(''paper_id'', MStr ''pb'')] \<rparr>]"
  by (simp add: Let_def convert_to_search_match_def dict_get_def)

lemma related_loop_missing_paper_id:
  "map paper_id (related_loop ''unknown'' 5
     [\<lparr> sr_id = ''x'', score = 0.6, sr_metadata = [] \<rparr>,
      \<lparr> sr_id = ''y'', score = 0.5, sr_metadata = [(''paper_id'', MStr ''pb'')] \<rparr>] [] {})
   = [MStr ''unknown'', MStr ''pb'']"
  by (simp add: Let_def convert_to_search_match_def dict_get_def)

lemma set_first_encounter_order [simp]: "set (first_encounter_order xs) = set xs"
  by (induction xs rule: first_encounter_order.induct) auto

lemma first_encounter_order_snoc:
  "first_encounter_order (xs @ [x])
     = (if x \<in> set xs then first_encounter_order xs else first_encounter_order xs @ [x])"
  by (induction xs rule: first_encounter_order.induct) auto

lemma distinct_first_encounter_order: "distinct (first_encounter_order xs)"
  by (induction xs rule: first_encounter_order.induct) auto

lemma groups_of_snoc: "groups_of (ms @ [m]) = group_step (groups_of ms) m"
proof (cases "paper_id m \<in> paper_id ` set ms")
  case True
  then show ?thesis
    by (auto simp: groups_of_def group_step_def first_encounter_order_snoc image_image comp_def)
next
  case False
  then have "filter (\<lambda>x. paper_id x = paper_id m) ms = []"
    by (induction ms) auto
  with False show ?thesis
    by (auto simp: groups_of_def group_step_def first_encounter_order_snoc image_image comp_def)
qed

lemma foldl_group_step: "foldl group_step [] matches = groups_of matches"
proof (induction matches rule: rev_induct)
  case Nil
  then show ?case by (simp add: groups_of_def)
next
  case (snoc m ms)
  then show ?case by (simp add: groups_of_snoc)
qed

lemma aggregate_eq:
  "aggregate_results_by_paper matches
     = map (\<lambda>k. (k, sort_by_score_desc (filter (\<lambda>m. paper_id m = k) matches)))
           (first_encounter_order (map paper_id matches))"
  by (simp add: aggregate_results_by_paper_def foldl_group_step groups_of_def comp_def)

lemma sort_by_score_desc_sorted:
  "sorted_wrt (\<lambda>a b. similarity_score b \<le> similarity_score a) (sort_by_score_desc ms)"
proof -
  have "sorted (map (\<lambda>m. - similarity_score m) (sort_by_score_desc ms))"
    unfolding sort_by_score_desc_def by (rule sorted_sort_key)
  then show ?thesis by (simp add: sorted_map)
qed

lemma sort_by_score_desc_stable:
  "filter (\<lambda>m. similarity_score m = s) (sort_by_score_desc ms)
     = filter (\<lambda>m. similarity_score m = s) ms"
  using sort_key_stable [of "\<lambda>m. - similarity_score m" "- s" ms]
  by (simp add: sort_by_score_desc_def)

lemma mset_sort_by_score_desc: "mset (sort_by_score_desc ms) = mset ms"
  by (simp add: sort_by_score_desc_def)

text \<open>
  C9. The keys of the result of \<open>aggregate_results_by_paper\<close> are the distinct paper ids
  of the matches in the order of their first occurrence; the group of a key holds
  exactly the matches with this paper id (as a multiset); within each group the scores
  are non-increasing, and the matches of equal score are in their original order.
\<close>

theorem aggregate_results_by_paper_law:
  "map fst (aggregate_results_by_paper matches) = first_encounter_order (map paper_id matches)
   \<and> distinct (map fst (aggregate_results_by_paper matches))
   \<and> (\<forall>(k, g) \<in> set (aggregate_results_by_paper matches).
        mset g = mset (filter (\<lambda>m. paper_id m = k) matches)
      \<and> sorted_wrt (\<lambda>a b. similarity_score b \<le> similarity_score a) g
      \<and> (\<forall>s. filter (\<lambda>m. similarity_score m = s) g
              = filter (\<lambda>m. similarity_score m = s) (filter (\<lambda>m. paper_id m = k) matches)))"
proof (intro conjI)
  show keys: "map fst (aggregate_results_by_paper matches) = first_encounter_order (map paper_id matches)"
    by (simp add: aggregate_eq comp_def)
  show "distinct (map fst (aggregate_results_by_paper matches))"
    by (simp only: keys distinct_first_encounter_order)
  show "\<forall>(k, g) \<in> set (aggregate_results_by_paper matches).
        mset g = mset (filter (\<lambda>m. paper_id m = k) matches)
      \<and> sorted_wrt (\<lambda>a b. similarity_score b \<le> similarity_score a) g
      \<and> (\<forall>s. filter (\<lambda>m. similarity_score m = s) g
              = filter (\<lambda>m. similarity_score m = s) (filter (\<lambda>m. paper_id m = k) matches))"
    by (auto simp: aggregate_eq mset_sort_by_score_desc sort_by_score_desc_sorted
          sort_by_score_desc_stable simp del: filter_filter)
qed

lemma aggregate_example:
  "aggregate_results_by_paper
     [example_match ''pa'' 0.5, example_match ''pb'' 0.9,
      (example_match ''pa'' 0.7) \<lparr> sm_chunk_index := MInt 1 \<rparr>,
      (example_match ''pa'' 0.7) \<lparr> sm_chunk_index := MInt 2 \<rparr>]
   = [(MStr ''pa'', [(example_match ''pa'' 0.7) \<lparr> sm_chunk_index := MInt 1 \<rparr>,
                     (example_match ''pa'' 0.7) \<lparr> sm_chunk_index := MInt 2 \<rparr>,
                     example_match ''pa'' 0.5]),
      (MStr ''pb'', [example_match ''pb'' 0.9])]"
  by (simp add: aggregate_results_by_paper_def group_step_def sort_by_score_desc_def
        example_match_def)

theorem aggregate_results_by_paper_law_witness:
  "(MStr ''pa'', [(example_match ''pa'' 0.7) \<lparr> sm_chunk_index := MInt 1 \<rparr>,
                     (example_match ''pa'' 0.7) \<lparr> sm_chunk_index := MInt 2 \<rparr>,
                     example_match ''pa'' 0.5])
     \<in> set (aggregate_results_by_paper
         [example_match ''pa'' 0.5, example_match ''pb'' 0.9,
          (example_match ''pa'' 0.7) \<lparr> sm_chunk_index := MInt 1 \<rparr>,
          (example_match ''pa'' 0.7) \<lparr> sm_chunk_index := MInt 2 \<rparr>])
   \<and> map fst (aggregate_results_by_paper
         [example_match ''pa'' 0.5, example_match ''pb'' 0.9,
          (example_match ''pa'' 0.7) \<lparr> sm_chunk_index := MInt 1 \<rparr>,
          (example_match ''pa'' 0.7) \<lparr> sm_chunk_index := MInt 2 \<rparr>])
      = [MStr ''pa'', MStr ''pb'']
   \<and> sorted_wrt (\<lambda>a b. similarity_score b \<le> similarity_score a)
        [(example_match ''pa'' 0.7) \<lparr> sm_chunk_index := MInt 1 \<rparr>,
         (example_match ''pa'' 0.7) \<lparr> sm_chunk_index := MInt 2 \<rparr>,
         example_match ''pa'' 0.5]"
proof -
  let ?ms = "[example_match ''pa'' 0.5, example_match ''pb'' 0.9,
          (example_match ''pa'' 0.7) \<lparr> sm_chunk_index := MInt 1 \<rparr>,
          (example_match ''pa'' 0.7) \<lparr> sm_chunk_index := MInt 2 \<rparr>]"
  let ?g = "[(example_match ''pa'' 0.7) \<lparr> sm_chunk_index := MInt 1 \<rparr>,
                     (example_match ''pa'' 0.7) \<lparr> sm_chunk_index := MInt 2 \<rparr>,
                     example_match ''pa'' 0.5]"
  have mem: "(MStr ''pa'', ?g) \<in> set (aggregate_results_by_paper ?ms)"
    unfolding aggregate_example by simp
  have law: "map fst (aggregate_results_by_paper ?ms) = first_encounter_order (map paper_id ?ms)
     \<and> (\<forall>(k, g) \<in> set (aggregate_results_by_paper ?ms).
          sorted_wrt (\<lambda>a b. similarity_score b \<le> similarity_score a) g)"
    using aggregate_results_by_paper_law [of ?ms] by blast
  have "sorted_wrt (\<lambda>a b. similarity_score b \<le> similarity_score a) ?g"
    using law mem by blast
  moreover have "map fst (aggregate_results_by_paper ?ms) = [MStr ''pa'', MStr ''pb'']"
    using law by (simp add: example_match_def)
  ultimately show ?thesis using mem by blast
qed

section \<open>Properties of the similarity\<close>

text \<open>
  The two calls \<open>compute_similarity(a, b)\<close> and \<open>compute_similarity(b, a)\<close> compute the
  same value, and the result is 0 when a norm is 0 and both norms are finite.
\<close>

lemma fmul_commute: "fmul x y = fmul y x"
  by (cases x; cases y) (simp_all add: mult.commute)

lemma products_commute:
  "map (\<lambda>(x, y). fmul x y) (zip a b) = map (\<lambda>(x, y). fmul x y) (zip b a)"
proof (induction a arbitrary: b)
  case Nil
  then show ?case by simp
next
  case (Cons x a)
  then show ?case by (cases b) (simp_all add: fmul_commute)
qed

lemma sum_products_commute: "sum_products a b = sum_products b a"
  by (simp add: sum_products_def products_commute [of a b])

lemma compute_similarity_same_value: "compute_similarity a b = compute_similarity b a"
  by (auto simp: compute_similarity_def Let_def np_dot_def sum_products_commute [of a b]
        fmul_commute [of "np_norm a" "np_norm b"])

lemma compute_similarity_zero_norm_finite:
  assumes "np_norm a = Fin 0 \<or> np_norm b = Fin 0"
    and "np_norm a = Fin x" and "np_norm b = Fin y"
  shows "compute_similarity a b = Inr (Fin 0)"
  using assms by (auto simp: compute_similarity_def Let_def truthy_def overflow_def)

text \<open>
  C8. The similarity of the zero vector \<open>[0, 0]\<close> and the vector \<open>[2^700, 2^700]\<close> is not
  0: the norm of the first is 0, the norm of the second overflows to infinity, their
  product is NaN, which is truthy, and the quotient is NaN, in either order of the
  arguments. NaN is not equal to itself, so the two results do not compare equal either.
\<close>

theorem compute_similarity_zero_norm_overflow:
  "np_norm [Fin 0, Fin 0] = Fin 0
   \<and> np_norm [Fin huge, Fin huge] = PInf
   \<and> compute_similarity [Fin 0, Fin 0] [Fin huge, Fin huge] = Inr NaN
   \<and> compute_similarity [Fin huge, Fin huge] [Fin 0, Fin 0] = Inr NaN
   \<and> \<not> float_eq NaN NaN"
proof -
  have n0: "np_norm [Fin 0, Fin 0] = Fin 0"
    by (simp add: np_norm_def sum_products_def overflow_def)
  have nb: "np_norm [Fin huge, Fin huge] = PInf"
    by (simp add: np_norm_def sum_products_def overflow_def huge_def)
  have d1: "sum_products [Fin 0, Fin 0] [Fin huge, Fin huge] = Fin 0"
    by (simp add: sum_products_def overflow_def)
  have d2: "sum_products [Fin huge, Fin huge] [Fin 0, Fin 0] = Fin 0"
    by (simp add: sum_products_def overflow_def)
  show ?thesis
    by (simp add: compute_similarity_def Let_def n0 nb d1 d2 np_dot_def signed_inf_def
          truthy_def float_eq_def)
qed

end
